theory Spec2Isabelle
  imports Complex_Main "HOL-Library.Word"
begin

unbundle bit_operations_syntax

section \<open>Cosmic-ray detection and spatial PSF fitting: a shallow embedding\<close>

text \<open>
  The definitions below follow \<^verbatim>\<open>src/src/CR.cc\<close> and \<^verbatim>\<open>src/src/SpatialModelPsf.cc\<close>
  function by function. Pixel values (\<^verbatim>\<open>float\<close> or \<^verbatim>\<open>double\<close> in the source) are
  modelled as \<^typ>\<open>real\<close>: the rounding of the machine arithmetic is not modelled, the
  control flow and the order of the operations are. There are three exceptions, where the
  machine arithmetic decides what the code does: the arithmetic of \<^verbatim>\<open>fitKernel\<close> is a
  parameter of the model, the conversion of a floating-point value to \<^verbatim>\<open>int\<close> has the
  range of 32 bits, and a quotient by a zero count is not a number. The C++ \<^verbatim>\<open>int\<close> is
  otherwise modelled as \<^typ>\<open>int\<close>; no claim depends on its overflow. What the two files call in the image
  library, in \<^verbatim>\<open>Interp.h\<close>, in Eigen and in Minuit is either written out from its
  contract (footprints, mask writes, the visits of the candidates) or taken as a parameter
  (the records \<open>interp_env\<close> and \<open>fit_env\<close>).
\<close>

subsection \<open>Errors\<close>

text \<open>
  The exceptions of \<^verbatim>\<open>lsst::pex::exceptions\<close> that the modelled functions throw, a failed
  \<^verbatim>\<open>assert\<close>, an access outside a vector or an image (undefined behaviour in C++), and a
  loop that does not end.
\<close>

datatype error =
    RangeErrorException
  | LogicErrorException
  | LengthErrorException
  | AssertionFailed
  | OutOfBounds
  | NoReturn

subsection \<open>Alias resolution (CR.cc, resolve\_alias)\<close>

text \<open>
  \<^verbatim>\<open>while(id != aliases[id]) { resolved = id = aliases[id]; } return resolved;\<close>
  The loop runs forever on a cyclic table, and \<^verbatim>\<open>aliases[id]\<close> outside the vector is
  undefined: both are the value \<open>None\<close> (no normal return). The source's \<^verbatim>\<open>id\<close> is
  written \<open>i\<close>.
\<close>

partial_function (option) resolve_alias :: "int list \<Rightarrow> int \<Rightarrow> int option" where
  "resolve_alias aliases i =
     (if i < 0 \<or> int (length aliases) \<le> i then None
      else if i \<noteq> aliases ! nat i then resolve_alias aliases (aliases ! nat i)
      else Some i)"

text \<open>
  The chain of aliases that starts at \<open>i\<close> ends at \<open>r\<close>: following the entries of the
  table from \<open>i\<close>, inside the table all the way, arrives at \<open>r\<close> with
  \<^verbatim>\<open>aliases[r] == r\<close>. The links may point upwards or downwards.
\<close>

inductive reaches :: "int list \<Rightarrow> int \<Rightarrow> int \<Rightarrow> bool" where
  fixed_point:
    "0 \<le> i \<Longrightarrow> i < int (length aliases) \<Longrightarrow> aliases ! nat i = i \<Longrightarrow> reaches aliases i i"
| link:
    "0 \<le> i \<Longrightarrow> i < int (length aliases) \<Longrightarrow> aliases ! nat i \<noteq> i \<Longrightarrow>
     reaches aliases (aliases ! nat i) r \<Longrightarrow> reaches aliases i r"

code_pred reaches .

subsection \<open>The closed-form amplitude fit (SpatialModelPsf.cc, fitKernel)\<close>

text \<open>
  The sums of \<^verbatim>\<open>fitKernel\<close> are \<^verbatim>\<open>double\<close>s, and what the function does depends on
  their arithmetic: a product can underflow to zero, a quotient by zero is an infinity or
  a NaN. The type of the values and its operations are therefore parameters of the model:
  \<open>'f\<close> is the type, and the record holds the constants \<^verbatim>\<open>0.0\<close>, \<^verbatim>\<open>1.0\<close>, \<^verbatim>\<open>2.0\<close>, the
  four operations and the comparison \<^verbatim>\<open>==\<close>. Nothing is assumed of them.
\<close>

record 'f arith =
  fp_zero :: 'f
  fp_one :: 'f
  fp_two :: 'f
  fp_add :: "'f \<Rightarrow> 'f \<Rightarrow> 'f"
  fp_sub :: "'f \<Rightarrow> 'f \<Rightarrow> 'f"
  fp_mul :: "'f \<Rightarrow> 'f \<Rightarrow> 'f"
  fp_div :: "'f \<Rightarrow> 'f \<Rightarrow> 'f"
  fp_eq :: "'f \<Rightarrow> 'f \<Rightarrow> bool"

text \<open>
  A pixel of the data: \<^verbatim>\<open>ptr.image()\<close> and \<^verbatim>\<open>ptr.variance()\<close>, as the \<^verbatim>\<open>double\<close>s
  the function converts them to.
\<close>

record 'f data_pixel =
  dp_image :: 'f
  dp_variance :: 'f

text \<open>The three running sums \<^verbatim>\<open>sumMM\<close>, \<^verbatim>\<open>sumMD\<close>, \<^verbatim>\<open>sumDD\<close>.\<close>

record 'f fit_sums =
  sumMM :: 'f
  sumMD :: 'f
  sumDD :: 'f

definition zero_sums :: "'f arith \<Rightarrow> 'f fit_sums" where
  "zero_sums ar = \<lparr>sumMM = fp_zero ar, sumMD = fp_zero ar, sumDD = fp_zero ar\<rparr>"

text \<open>
  The three statements \<^verbatim>\<open>sumMM += m*m*iVar; sumMD += m*d*iVar; sumDD += d*d*iVar\<close> with
  \<^verbatim>\<open>iVar = 1.0/var\<close>, for the model value \<open>m\<close> and the data pixel \<open>p\<close>.
\<close>

definition accumulate :: "'f arith \<Rightarrow> 'f fit_sums \<Rightarrow> 'f \<times> 'f data_pixel \<Rightarrow> 'f fit_sums" where
  "accumulate ar s mp =
     (let m = fst mp; d = dp_image (snd mp); var = dp_variance (snd mp);
          iVar = fp_div ar (fp_one ar) var
      in \<lparr>sumMM = fp_add ar (sumMM s) (fp_mul ar (fp_mul ar m m) iVar),
          sumMD = fp_add ar (sumMD s) (fp_mul ar (fp_mul ar m d) iVar),
          sumDD = fp_add ar (sumDD s) (fp_mul ar (fp_mul ar d d) iVar)\<rparr>)"

text \<open>The body of the inner loop: the three statements under \<^verbatim>\<open>if (var != 0.0)\<close>.\<close>

definition fitKernel_pixel :: "'f arith \<Rightarrow> 'f fit_sums \<Rightarrow> 'f \<times> 'f data_pixel \<Rightarrow> 'f fit_sums" where
  "fitKernel_pixel ar s mp =
     (let var = dp_variance (snd mp) in
      if \<not> fp_eq ar var (fp_zero ar) then accumulate ar s mp else s)"

text \<open>The inner loop over one row: the model iterator follows the data iterator.\<close>

definition fitKernel_row ::
  "'f arith \<Rightarrow> 'f fit_sums \<Rightarrow> 'f list \<times> 'f data_pixel list \<Rightarrow> 'f fit_sums" where
  "fitKernel_row ar s r = foldl (fitKernel_pixel ar) s (zip (fst r) (snd r))"

text \<open>The two loops: rows \<open>0 .. height - 1\<close> of the data, each with the model's row.\<close>

definition fitKernel_sums ::
  "'f arith \<Rightarrow> 'f list list \<Rightarrow> 'f data_pixel list list \<Rightarrow> 'f fit_sums" where
  "fitKernel_sums ar mImage data = foldl (fitKernel_row ar) (zero_sums ar) (zip mImage data)"

text \<open>\<^verbatim>\<open>data.getDimensions() == mImage.getDimensions()\<close>, images being lists of rows.\<close>

definition same_dimensions :: "'f list list \<Rightarrow> 'f data_pixel list list \<Rightarrow> bool" where
  "same_dimensions mImage data =
     (map length mImage = map length data)"

text \<open>
  \<^verbatim>\<open>fitKernel\<close> returns the pair \<open>(chi2, amp)\<close>, or throws:
  \<^verbatim>\<open>amp = sumMD/sumMM; chi2 = sumDD - 2*amp*sumMD + amp*amp*sumMM\<close>.
\<close>

definition fitKernel ::
  "'f arith \<Rightarrow> 'f list list \<Rightarrow> 'f data_pixel list list \<Rightarrow> error + ('f \<times> 'f)" where
  "fitKernel ar mImage data =
     (if \<not> same_dimensions mImage data then Inl AssertionFailed
      else
        (let s = fitKernel_sums ar mImage data in
         if fp_eq ar (sumMM s) (fp_zero ar) then Inl RangeErrorException
         else
           (let amp = fp_div ar (sumMD s) (sumMM s);
                chi2 = fp_add ar
                         (fp_sub ar (sumDD s) (fp_mul ar (fp_mul ar (fp_two ar) amp) (sumMD s)))
                         (fp_mul ar (fp_mul ar amp amp) (sumMM s))
            in Inr (chi2, amp))))"



text \<open>
  Two arithmetics for the examples. The exact one on the reals, where HOL takes a quotient
  by zero to be 0. And one nearer to the \<^verbatim>\<open>double\<close>s: a value is a real number or \<open>None\<close>
  (an infinity or a NaN), an operation on \<open>None\<close> gives \<open>None\<close>, a quotient by zero is
  \<open>None\<close>, a product of size at most \<open>1 / 2 ^ 1075\<close> (half the smallest positive
  \<^verbatim>\<open>double\<close>) rounds to 0, and \<open>None\<close> compares equal to nothing (the code compares
  with \<^verbatim>\<open>0.0\<close> only). No other rounding is done.
\<close>

definition exact_arith :: "real arith" where
  "exact_arith =
     \<lparr>fp_zero = 0, fp_one = 1, fp_two = 2, fp_add = (\<lambda>x y. x + y), fp_sub = (\<lambda>x y. x - y),
      fp_mul = (\<lambda>x y. x * y), fp_div = (\<lambda>x y. x / y), fp_eq = (\<lambda>x y. x = y)\<rparr>"

definition lift2 :: "(real \<Rightarrow> real \<Rightarrow> real option) \<Rightarrow> real option \<Rightarrow> real option \<Rightarrow> real option" where
  "lift2 f x y =
     (case x of None \<Rightarrow> None | Some a \<Rightarrow> (case y of None \<Rightarrow> None | Some b \<Rightarrow> f a b))"

definition toy_double :: "real option arith" where
  "toy_double =
     \<lparr>fp_zero = Some 0, fp_one = Some 1, fp_two = Some 2,
      fp_add = lift2 (\<lambda>a b. Some (a + b)),
      fp_sub = lift2 (\<lambda>a b. Some (a - b)),
      fp_mul = lift2 (\<lambda>a b. if \<bar>a * b\<bar> \<le> 1 / 2 ^ 1075 then Some 0 else Some (a * b)),
      fp_div = lift2 (\<lambda>a b. if b = 0 then None else Some (a / b)),
      fp_eq = (\<lambda>x y. x \<noteq> None \<and> x = y)\<rparr>"

subsection \<open>Masked images and locators\<close>

text \<open>
  \<^verbatim>\<open>image::MaskPixel\<close> of the image library is an unsigned 16-bit integer.
\<close>

type_synonym mask_pixel = "16 word"

text \<open>
  A \<^verbatim>\<open>MaskedImage\<close>: origin, dimensions and the three planes, indexed by the pixel's
  position \<open>(x, y)\<close> inside the image (\<open>0 \<le> x < width\<close>, \<open>0 \<le> y < height\<close>). The planes
  are total functions; C++ leaves a read outside the image undefined.
\<close>

record masked_image =
  mi_X0 :: int
  mi_Y0 :: int
  mi_width :: int
  mi_height :: int
  mi_image :: "int \<times> int \<Rightarrow> real"
  mi_variance :: "int \<times> int \<Rightarrow> real"
  mi_mask :: "int \<times> int \<Rightarrow> mask_pixel"

text \<open>
  An \<^verbatim>\<open>xy_locator\<close> is the position it points at; \<^verbatim>\<open>loc.image(dx, dy)\<close>,
  \<^verbatim>\<open>loc.variance(dx, dy)\<close> and \<^verbatim>\<open>loc.mask(dx, dy)\<close> read the neighbour at that offset.
\<close>

definition loc_image :: "masked_image \<Rightarrow> int \<times> int \<Rightarrow> int \<Rightarrow> int \<Rightarrow> real" where
  "loc_image mi loc dx dy = mi_image mi (fst loc + dx, snd loc + dy)"

definition loc_variance :: "masked_image \<Rightarrow> int \<times> int \<Rightarrow> int \<Rightarrow> int \<Rightarrow> real" where
  "loc_variance mi loc dx dy = mi_variance mi (fst loc + dx, snd loc + dy)"

definition loc_mask :: "masked_image \<Rightarrow> int \<times> int \<Rightarrow> int \<Rightarrow> int \<Rightarrow> mask_pixel" where
  "loc_mask mi loc dx dy = mi_mask mi (fst loc + dx, snd loc + dy)"

text \<open>\<^verbatim>\<open>loc.image() = v\<close>: the write through a locator.\<close>

definition set_image :: "masked_image \<Rightarrow> int \<times> int \<Rightarrow> real \<Rightarrow> masked_image" where
  "set_image mi loc v = mi\<lparr>mi_image := (mi_image mi)(loc := v)\<rparr>"

definition in_image :: "masked_image \<Rightarrow> int \<times> int \<Rightarrow> bool" where
  "in_image mi loc =
     (0 \<le> fst loc \<and> fst loc < mi_width mi \<and> 0 \<le> snd loc \<and> snd loc < mi_height mi)"

text \<open>
  The conversion of a floating-point value to the 32-bit \<^verbatim>\<open>int\<close>, which C++ does by
  discarding the fractional part. When the result does not fit (the value is at most
  \<open>- 2 ^ 31 - 1\<close> or at least \<open>2 ^ 31\<close>) C++ leaves the conversion undefined; the
  conversion instruction of the x86 then gives the smallest \<^verbatim>\<open>int\<close>, \<open>- 2 ^ 31\<close>, and
  that is the value taken here.
\<close>

definition c_trunc :: "real \<Rightarrow> int" where
  "c_trunc r =
     (if r \<le> - 2147483649 \<or> 2147483648 \<le> r then - 2147483648
      else if r < 0 then \<lceil>r\<rceil> else \<lfloor>r\<rfloor>)"

subsection \<open>The pixel test (CR.cc, condition\_3 and is\_cr\_pixel)\<close>

text \<open>
  \<^verbatim>\<open>condition_3\<close> returns \<^verbatim>\<open>true\<close> with \<^verbatim>\<open>*estimate\<close> set, or \<^verbatim>\<open>false\<close>: here
  \<open>Some estimate\<close> or \<open>None\<close>. The gain \<^verbatim>\<open>e_per_dn\<close> is passed and not used.
\<close>

definition condition_3 ::
  "real \<Rightarrow> real \<Rightarrow> real \<Rightarrow> real \<Rightarrow> real \<Rightarrow> real \<Rightarrow> real \<Rightarrow> real \<Rightarrow> real \<Rightarrow> real \<Rightarrow>
   real \<Rightarrow> real \<Rightarrow> real \<Rightarrow> real \<Rightarrow> real \<Rightarrow> real option" where
  "condition_3 peak mean_ns mean_we mean_swne mean_nwse
               dpeak dmean_ns dmean_we dmean_swne dmean_nwse
               thres_h thres_v thres_d e_per_dn cond3_fac =
     (if thres_v * (peak - cond3_fac * dpeak) > mean_ns + cond3_fac * dmean_ns then Some mean_ns
      else if thres_h * (peak - cond3_fac * dpeak) > mean_we + cond3_fac * dmean_we then Some mean_we
      else if thres_d * (peak - cond3_fac * dpeak) > mean_swne + cond3_fac * dmean_swne
        then Some mean_swne
      else if thres_d * (peak - cond3_fac * dpeak) > mean_nwse + cond3_fac * dmean_nwse
        then Some mean_nwse
      else None)"

text \<open>The four two-sided neighbour means of \<^verbatim>\<open>is_cr_pixel\<close>, and their standard deviations.\<close>

definition mean_we :: "masked_image \<Rightarrow> int \<times> int \<Rightarrow> real" where
  "mean_we mi loc = (loc_image mi loc (-1) 0 + loc_image mi loc 1 0) / 2"

definition mean_ns :: "masked_image \<Rightarrow> int \<times> int \<Rightarrow> real" where
  "mean_ns mi loc = (loc_image mi loc 0 1 + loc_image mi loc 0 (-1)) / 2"

definition mean_swne :: "masked_image \<Rightarrow> int \<times> int \<Rightarrow> real" where
  "mean_swne mi loc = (loc_image mi loc (-1) (-1) + loc_image mi loc 1 1) / 2"

definition mean_nwse :: "masked_image \<Rightarrow> int \<times> int \<Rightarrow> real" where
  "mean_nwse mi loc = (loc_image mi loc (-1) 1 + loc_image mi loc 1 (-1)) / 2"

definition dmean_we :: "masked_image \<Rightarrow> int \<times> int \<Rightarrow> real" where
  "dmean_we mi loc = sqrt (loc_variance mi loc (-1) 0 + loc_variance mi loc 1 0) / 2"

definition dmean_ns :: "masked_image \<Rightarrow> int \<times> int \<Rightarrow> real" where
  "dmean_ns mi loc = sqrt (loc_variance mi loc 0 1 + loc_variance mi loc 0 (-1)) / 2"

definition dmean_swne :: "masked_image \<Rightarrow> int \<times> int \<Rightarrow> real" where
  "dmean_swne mi loc = sqrt (loc_variance mi loc (-1) (-1) + loc_variance mi loc 1 1) / 2"

definition dmean_nwse :: "masked_image \<Rightarrow> int \<times> int \<Rightarrow> real" where
  "dmean_nwse mi loc = sqrt (loc_variance mi loc (-1) 1 + loc_variance mi loc 1 (-1)) / 2"

text \<open>
  \<^verbatim>\<open>is_cr_pixel\<close> returns \<^verbatim>\<open>true\<close> with the corrected value in \<^verbatim>\<open>*corr\<close> (which both
  callers initialise to 0 and \<^verbatim>\<open>condition_3\<close> overwrites), or \<^verbatim>\<open>false\<close>: here
  \<open>Some corr\<close> or \<open>None\<close>. The parameter \<^verbatim>\<open>min_sigma\<close> is declared \<^verbatim>\<open>int const\<close>.
  Variances are non-negative by the data model; the square root of a negative variance
  (a NaN in the source) is not modelled.
\<close>

definition is_cr_pixel ::
  "masked_image \<Rightarrow> int \<times> int \<Rightarrow> int \<Rightarrow> real \<Rightarrow> real \<Rightarrow> real \<Rightarrow> real \<Rightarrow> real \<Rightarrow> real \<Rightarrow>
   real option" where
  "is_cr_pixel mi loc min_sigma thres_h thres_v thres_d bkgd e_per_dn cond3_fac =
     (let v_00 = loc_image mi loc 0 0 in
      if v_00 < 0 then None
      else if (if min_sigma < 0 then v_00 < - real_of_int min_sigma
               else (let thres_sky_sigma = real_of_int min_sigma * sqrt (loc_variance mi loc 0 0)
                     in v_00 < mean_ns mi loc + thres_sky_sigma \<and>
                        v_00 < mean_we mi loc + thres_sky_sigma \<and>
                        v_00 < mean_swne mi loc + thres_sky_sigma \<and>
                        v_00 < mean_nwse mi loc + thres_sky_sigma))
        then None
      else
        (let dv_00 = sqrt (loc_variance mi loc 0 0) in
         case condition_3 (v_00 - bkgd) (mean_ns mi loc - bkgd) (mean_we mi loc - bkgd)
                (mean_swne mi loc - bkgd) (mean_nwse mi loc - bkgd)
                dv_00 (dmean_ns mi loc) (dmean_we mi loc) (dmean_swne mi loc) (dmean_nwse mi loc)
                thres_h thres_v thres_d e_per_dn cond3_fac of
           None \<Rightarrow> None
         | Some corr \<Rightarrow> Some (corr + bkgd)))"

subsection \<open>Interpolation over a pixel (CR.cc, RemoveCR::operator())\<close>

text \<open>
  A \<^verbatim>\<open>Span\<close> is a row and an inclusive range of columns, \<open>(y, x0, x1)\<close>; a
  \<^verbatim>\<open>Footprint\<close> is its list of spans, in the order \<^verbatim>\<open>addSpan\<close> received them. Its
  bounding box is not modelled (\<^verbatim>\<open>setBBox\<close> changes nothing else).
\<close>

type_synonym span = "int \<times> int \<times> int"

type_synonym footprint = "span list"

text \<open>
  What the cosmic-ray code takes from outside this file: the interpolation coefficients and
  the bias of \<^verbatim>\<open>Interp.h\<close>, the long-range interpolator \<^verbatim>\<open>interp::singlePixel\<close>, the
  limits \<^verbatim>\<open>numeric_limits<ImageT>::max()\<close> and \<^verbatim>\<open>::min()\<close>, the values that
  \<^verbatim>\<open>rand()/(float)RAND_MAX\<close> yields call after call, and the image library's
  \<^verbatim>\<open>growFootprint\<close> and \<^verbatim>\<open>Footprint::normalize\<close>. They are parameters of the model.
\<close>

record interp_env =
  lpc_1_c1 :: real
  lpc_1_c2 :: real
  lpc_1s2_c1 :: real
  lpc_1s2_c2 :: real
  min_2Gaussian_bias :: real
  singlePixel :: "int \<Rightarrow> int \<Rightarrow> masked_image \<Rightarrow> bool \<Rightarrow> real \<Rightarrow> real"
  pixel_max :: real
  pixel_min :: real
  gaussdev :: "nat \<Rightarrow> real"
  growFootprint :: "footprint \<Rightarrow> int \<Rightarrow> footprint"
  normalize :: "footprint \<Rightarrow> footprint"

text \<open>The members of the functor: \<^verbatim>\<open>_bkgd\<close>, \<^verbatim>\<open>_ncol\<close>, \<^verbatim>\<open>_nrow\<close>, \<^verbatim>\<open>_badMask\<close>, \<^verbatim>\<open>_debias\<close>.\<close>

record remove_cr =
  rc_bkgd :: real
  rc_ncol :: int
  rc_nrow :: int
  rc_badMask :: mask_pixel
  rc_debias :: bool

text \<open>
  The test \<^verbatim>\<open>(loc.mask(dx, dy) | _badMask)\<close> in a boolean context: the bitwise OR is
  not zero.
\<close>

definition contaminated :: "remove_cr \<Rightarrow> masked_image \<Rightarrow> int \<times> int \<Rightarrow> int \<Rightarrow> int \<Rightarrow> bool" where
  "contaminated rc mi loc dx dy = ((loc_mask mi loc dx dy OR rc_badMask rc) \<noteq> 0)"

text \<open>
  The four directional blocks. Each yields its 4-point estimate \<^verbatim>\<open>tmp\<close>, or nothing when
  the support leaves the image or the block finds the estimate contaminated.
\<close>

definition estimate_we :: "interp_env \<Rightarrow> remove_cr \<Rightarrow> masked_image \<Rightarrow> int \<times> int \<Rightarrow> int \<Rightarrow> int \<Rightarrow> real option" where
  "estimate_we env rc mi loc x y =
     (if x - 2 \<ge> 0 \<and> x + 2 < rc_ncol rc then
        (if contaminated rc mi loc (-2) 0 \<or> contaminated rc mi loc (-1) 0 \<or>
            contaminated rc mi loc 1 0 \<or> contaminated rc mi loc 2 0 then None
         else
           (let v_m2 = loc_image mi loc (-2) 0; v_m1 = loc_image mi loc (-1) 0;
                v_p1 = loc_image mi loc 1 0; v_p2 = loc_image mi loc 2 0
            in Some (lpc_1_c1 env * (v_m1 + v_p1) + lpc_1_c2 env * (v_m2 + v_p2))))
      else None)"

definition estimate_ns :: "interp_env \<Rightarrow> remove_cr \<Rightarrow> masked_image \<Rightarrow> int \<times> int \<Rightarrow> int \<Rightarrow> int \<Rightarrow> real option" where
  "estimate_ns env rc mi loc x y =
     (if y - 2 \<ge> 0 \<and> y + 2 < rc_nrow rc then
        (if contaminated rc mi loc 0 (-2) \<or> contaminated rc mi loc 0 (-1) \<or>
            contaminated rc mi loc 0 1 \<or> contaminated rc mi loc 0 2 then None
         else
           (let v_m2 = loc_image mi loc 0 (-2); v_m1 = loc_image mi loc 0 (-1);
                v_p1 = loc_image mi loc 0 1; v_p2 = loc_image mi loc 0 2
            in Some (lpc_1_c1 env * (v_m1 + v_p1) + lpc_1_c2 env * (v_m2 + v_p2))))
      else None)"

definition estimate_swne :: "interp_env \<Rightarrow> remove_cr \<Rightarrow> masked_image \<Rightarrow> int \<times> int \<Rightarrow> int \<Rightarrow> int \<Rightarrow> real option" where
  "estimate_swne env rc mi loc x y =
     (if x - 2 \<ge> 0 \<and> x + 2 < rc_ncol rc \<and> y - 2 \<ge> 0 \<and> y + 2 < rc_nrow rc then
        (if contaminated rc mi loc (-2) (-2) \<or> contaminated rc mi loc (-1) (-1) \<or>
            contaminated rc mi loc 1 1 \<or> contaminated rc mi loc 2 2 then None
         else
           (let v_m2 = loc_image mi loc (-2) (-2); v_m1 = loc_image mi loc (-1) (-1);
                v_p1 = loc_image mi loc 1 1; v_p2 = loc_image mi loc 2 2
            in Some (lpc_1s2_c1 env * (v_m1 + v_p1) + lpc_1s2_c2 env * (v_m2 + v_p2))))
      else None)"

definition estimate_senw :: "interp_env \<Rightarrow> remove_cr \<Rightarrow> masked_image \<Rightarrow> int \<times> int \<Rightarrow> int \<Rightarrow> int \<Rightarrow> real option" where
  "estimate_senw env rc mi loc x y =
     (if x - 2 \<ge> 0 \<and> x + 2 < rc_ncol rc \<and> y - 2 \<ge> 0 \<and> y + 2 < rc_nrow rc then
        (if contaminated rc mi loc 2 (-2) \<or> contaminated rc mi loc 1 (-1) \<or>
            contaminated rc mi loc (-1) 1 \<or> contaminated rc mi loc (-2) 2 then None
         else
           (let v_m2 = loc_image mi loc 2 (-2); v_m1 = loc_image mi loc 1 (-1);
                v_p1 = loc_image mi loc (-1) 1; v_p2 = loc_image mi loc (-2) 2
            in Some (lpc_1s2_c1 env * (v_m1 + v_p1) + lpc_1s2_c2 env * (v_m2 + v_p2))))
      else None)"

text \<open>
  \<^verbatim>\<open>if(tmp > minval && tmp < min) { min = tmp; ngood++; }\<close> on the pair \<open>(min, ngood)\<close>;
  a block that yields nothing leaves the pair as it is.
\<close>

definition adopt :: "real \<Rightarrow> real \<times> int \<Rightarrow> real option \<Rightarrow> real \<times> int" where
  "adopt minval acc est =
     (case est of
        None \<Rightarrow> acc
      | Some tmp \<Rightarrow> (if tmp > minval \<and> tmp < fst acc then (tmp, snd acc + 1) else acc))"

text \<open>
  The functor's call for the pixel under \<open>loc\<close>, at the column and row \<open>x\<close>, \<open>y\<close> that
  \<^verbatim>\<open>apply\<close> passes. The state is the image and the number of \<^verbatim>\<open>rand()\<close> calls so far.
\<close>

definition RemoveCR_call ::
  "interp_env \<Rightarrow> remove_cr \<Rightarrow> masked_image \<times> nat \<Rightarrow> int \<times> int \<Rightarrow> int \<Rightarrow> int \<Rightarrow> masked_image \<times> nat" where
  "RemoveCR_call env rc st loc x y =
     (let mi = fst st; nrand = snd st;
          minval = rc_bkgd rc - 2 * sqrt (loc_variance mi loc 0 0);
          acc0 = (pixel_max env, 0);
          acc1 = adopt minval acc0 (estimate_we env rc mi loc x y);
          acc2 = adopt minval acc1 (estimate_ns env rc mi loc x y);
          acc3 = adopt minval acc2 (estimate_swne env rc mi loc x y);
          acc4 = adopt minval acc3 (estimate_senw env rc mi loc x y);
          ngood = snd acc4;
          res = (if ngood = 0 then
                   (let val_h = singlePixel env x y mi True minval;
                        val_v = singlePixel env x y mi False minval
                    in if val_h = pixel_min env then
                         (if val_v = pixel_min env then
                            (rc_bkgd rc + sqrt (loc_variance mi loc 0 0) * gaussdev env nrand,
                             Suc nrand)
                          else (val_v, nrand))
                       else
                         (if val_v = pixel_min env then (val_h, nrand)
                          else ((val_v + val_h) / 2, nrand)))
                 else (fst acc4, nrand));
          min1 = (if rc_debias rc \<and> ngood > 1
                  then fst res - min_2Gaussian_bias env * sqrt (loc_variance mi loc 0 0)
                  else fst res)
      in (set_image mi loc min1, snd res))"

subsection \<open>Footprints and masks (the image library's contract)\<close>

text \<open>
  \<^verbatim>\<open>addSpan\<close> appends a span and \<^verbatim>\<open>getNpix\<close> is the number of pixels added so far.
  The pixels of a footprint are visited span by span, each from \<open>x0\<close> to \<open>x1\<close>; footprints
  hold positions in the parent frame, \<open>(X0, Y0)\<close> away from positions inside the image.
\<close>

definition addSpan :: "footprint \<Rightarrow> int \<Rightarrow> int \<Rightarrow> int \<Rightarrow> footprint" where
  "addSpan fp y x0 x1 = fp @ [(y, x0, x1)]"

definition getNpix :: "footprint \<Rightarrow> int" where
  "getNpix fp = (\<Sum>sp\<leftarrow>fp. snd (snd sp) - fst (snd sp) + 1)"

definition footprint_pixels :: "footprint \<Rightarrow> (int \<times> int) list" where
  "footprint_pixels fp = concat (map (\<lambda>sp. map (\<lambda>x. (x, fst sp)) [fst (snd sp) .. snd (snd sp)]) fp)"

definition to_local :: "masked_image \<Rightarrow> int \<times> int \<Rightarrow> int \<times> int" where
  "to_local mi p = (fst p - mi_X0 mi, snd p - mi_Y0 mi)"

text \<open>
  \<^verbatim>\<open>footprintAndMask(foot, mask, bits)\<close>: the pixels of \<open>foot\<close> whose mask has one of
  \<open>bits\<close> set. \<^verbatim>\<open>setMaskFromFootprint(mask, foot, bits)\<close>: OR \<open>bits\<close> into the mask of every
  pixel of \<open>foot\<close>; \<^verbatim>\<open>setMaskFromFootprintList\<close> does so for each footprint of a list.
\<close>

definition footprintAndMask :: "footprint \<Rightarrow> masked_image \<Rightarrow> mask_pixel \<Rightarrow> footprint" where
  "footprintAndMask foot mi bits =
     map (\<lambda>p. (snd p, fst p, fst p))
       (filter (\<lambda>p. mi_mask mi (to_local mi p) AND bits \<noteq> 0) (footprint_pixels foot))"

definition or_mask :: "masked_image \<Rightarrow> int \<times> int \<Rightarrow> mask_pixel \<Rightarrow> masked_image" where
  "or_mask mi loc bits = mi\<lparr>mi_mask := (mi_mask mi)(loc := mi_mask mi loc OR bits)\<rparr>"

definition setMaskFromFootprint :: "masked_image \<Rightarrow> footprint \<Rightarrow> mask_pixel \<Rightarrow> masked_image" where
  "setMaskFromFootprint mi foot bits =
     foldl (\<lambda>m p. or_mask m (to_local m p) bits) mi (footprint_pixels foot)"

definition setMaskFromFootprintList ::
  "masked_image \<Rightarrow> footprint list \<Rightarrow> mask_pixel \<Rightarrow> masked_image" where
  "setMaskFromFootprintList mi feet bits = foldl (\<lambda>m foot. setMaskFromFootprint m foot bits) mi feet"

subsection \<open>Detected pixels (CR.cc, CRPixel)\<close>

text \<open>
  A \<^verbatim>\<open>CRPixel\<close> with its running index \<^verbatim>\<open>_i\<close>. The constructor
  \<^verbatim>\<open>CRPixel(int _col, int _row, int _val, int _id = -1)\<close> takes the value as an \<^verbatim>\<open>int\<close>
  and stores it in the field \<^verbatim>\<open>ImageT val\<close>; it increments the static counter \<^verbatim>\<open>i\<close>,
  which the model passes in and returns.
\<close>

record cr_pixel =
  crp_id :: int
  crp_col :: int
  crp_row :: int
  crp_val :: real
  crp_i :: int

definition CRPixel :: "int \<Rightarrow> int \<Rightarrow> int \<Rightarrow> real \<Rightarrow> int \<Rightarrow> cr_pixel \<times> int" where
  "CRPixel i col row val ident =
     (\<lparr>crp_id = ident, crp_col = col, crp_row = row,
       crp_val = real_of_int (c_trunc val), crp_i = i + 1\<rparr>, i + 1)"

text \<open>
  The state that the phases of \<^verbatim>\<open>findCosmicRays\<close> change: the image, the vector
  \<^verbatim>\<open>crpixels\<close>, the static counter of \<^verbatim>\<open>CRPixel\<close>, and the number of \<^verbatim>\<open>rand()\<close> calls.
\<close>

record cr_state =
  st_mimage :: masked_image
  st_crpixels :: "cr_pixel list"
  st_counter :: int
  st_nrand :: nat

text \<open>The arguments of the pixel test that stay the same during a call.\<close>

record test_args =
  ta_thres_h :: real
  ta_thres_v :: real
  ta_thres_d :: real
  ta_bkgd :: real
  ta_e_per_dn :: real

subsection \<open>The initial sweep (CR.cc, findCosmicRays, first loop)\<close>

text \<open>
  The body of the double loop at the pixel \<open>(i, j)\<close>: the pixel test, Condition 4, then
  the record of the pixel and the overwrite with the preliminary estimate.
\<close>

definition sweep_pixel ::
  "test_args \<Rightarrow> int \<Rightarrow> real \<Rightarrow> mask_pixel \<Rightarrow> cr_state \<Rightarrow> int \<times> int \<Rightarrow> cr_state" where
  "sweep_pixel ta min_sigma cond3_fac badMask st loc =
     (let mi = st_mimage st in
      case is_cr_pixel mi loc min_sigma (ta_thres_h ta) (ta_thres_v ta) (ta_thres_d ta)
             (ta_bkgd ta) (ta_e_per_dn ta) cond3_fac of
        None \<Rightarrow> st
      | Some corr \<Rightarrow>
          if loc_mask mi loc 0 0 AND badMask \<noteq> 0 then st
          else
            (let pc = CRPixel (st_counter st) (fst loc) (snd loc) (loc_image mi loc 0 0) (-1)
             in st\<lparr>st_mimage := set_image mi loc corr,
                    st_crpixels := st_crpixels st @ [fst pc],
                    st_counter := snd pc\<rparr>))"

definition interior_pixels :: "int \<Rightarrow> int \<Rightarrow> (int \<times> int) list" where
  "interior_pixels ncol nrow =
     concat (map (\<lambda>j. map (\<lambda>i. (i, j)) [1 .. ncol - 2]) [1 .. nrow - 2])"

definition initial_sweep ::
  "test_args \<Rightarrow> int \<Rightarrow> real \<Rightarrow> mask_pixel \<Rightarrow> cr_state \<Rightarrow> cr_state" where
  "initial_sweep ta min_sigma cond3_fac badMask st =
     foldl (sweep_pixel ta min_sigma cond3_fac badMask) st
       (interior_pixels (mi_width (st_mimage st)) (mi_height (st_mimage st)))"

subsection \<open>From pixels to spans to footprints (CR.cc, findCosmicRays)\<close>

record id_span =
  is_id :: int
  is_y :: int
  is_x0 :: int
  is_x1 :: int

text \<open>
  The variables of the span-building loop: \<^verbatim>\<open>ncr\<close>, \<^verbatim>\<open>aliases\<close>, \<^verbatim>\<open>spans\<close> and the
  current \<^verbatim>\<open>x0\<close>, \<^verbatim>\<open>x1\<close>, \<^verbatim>\<open>y\<close>.
\<close>

record span_state =
  bs_ncr :: int
  bs_aliases :: "int list"
  bs_spans :: "id_span list"
  bs_x0 :: int
  bs_x1 :: int
  bs_y :: int

text \<open>
  The loop over \<^verbatim>\<open>crpixels\<close> up to the dummy pushed at its end: \<^verbatim>\<open>crp[0]\<close> is the head
  and \<^verbatim>\<open>crp[1]\<close> the pixel after it. The result holds the pixels with their ids set.
\<close>

fun build_spans :: "span_state \<Rightarrow> cr_pixel list \<Rightarrow> error + (span_state \<times> cr_pixel list)" where
  "build_spans s (c0 # c1 # rest) =
     (let s1 = (if crp_id c0 < 0
                then s\<lparr>bs_ncr := bs_ncr s + 1, bs_aliases := bs_aliases s @ [bs_ncr s + 1],
                       bs_y := crp_row c0, bs_x0 := crp_col c0, bs_x1 := crp_col c0\<rparr>
                else s);
          c0' = (if crp_id c0 < 0 then c0\<lparr>crp_id := bs_ncr s + 1\<rparr> else c0);
          ident = crp_id c0'
      in if crp_row c1 = crp_row c0' \<and> crp_col c1 = crp_col c0' + 1 then
           (case build_spans (s1\<lparr>bs_x1 := bs_x1 s1 + 1\<rparr>) (c1\<lparr>crp_id := ident\<rparr> # rest) of
              Inl e \<Rightarrow> Inl e
            | Inr r \<Rightarrow> Inr (fst r, c0' # snd r))
         else if \<not> (bs_y s1 \<ge> 0 \<and> bs_x0 s1 \<ge> 0 \<and> bs_x1 s1 \<ge> 0) then Inl AssertionFailed
         else
           (case build_spans
                   (s1\<lparr>bs_spans := bs_spans s1 @
                         [\<lparr>is_id = ident, is_y = bs_y s1, is_x0 = bs_x0 s1, is_x1 = bs_x1 s1\<rparr>]\<rparr>)
                   (c1 # rest) of
              Inl e \<Rightarrow> Inl e
            | Inr r \<Rightarrow> Inr (fst r, c0' # snd r)))"
| "build_spans s cs = Inr (s, cs)"

text \<open>
  ``See if spans touch each other'': the inner loop over the spans \<open>sp2\<close> after \<open>sp\<close>, with
  its \<^verbatim>\<open>continue\<close> and \<^verbatim>\<open>break\<close>, and the outer loop. A \<open>resolve_alias\<close> that does not
  return ends the call without a result.
\<close>

fun touch_inner :: "int list \<Rightarrow> id_span \<Rightarrow> id_span list \<Rightarrow> int list option" where
  "touch_inner aliases sp [] = Some aliases"
| "touch_inner aliases sp (sp2 # rest) =
     (if is_y sp2 = is_y sp then touch_inner aliases sp rest
      else if is_y sp2 \<noteq> is_y sp + 1 \<or> is_x0 sp2 > is_x1 sp + 1 then Some aliases
      else if is_x1 sp2 \<ge> is_x0 sp - 1 then
        (case resolve_alias aliases (is_id sp) of
           None \<Rightarrow> None
         | Some a \<Rightarrow>
             (case resolve_alias aliases (is_id sp2) of
                None \<Rightarrow> None
              | Some b \<Rightarrow> touch_inner (aliases[nat a := b]) sp rest))
      else touch_inner aliases sp rest)"

fun touch_outer :: "int list \<Rightarrow> id_span list \<Rightarrow> int list option" where
  "touch_outer aliases [] = Some aliases"
| "touch_outer aliases (sp # rest) =
     (case touch_inner aliases sp rest of
        None \<Rightarrow> None
      | Some aliases' \<Rightarrow> touch_outer aliases' rest)"

text \<open>\<^verbatim>\<open>spans[i]->id = resolve_alias(aliases, spans[i]->id)\<close> for every span.\<close>

fun resolve_spans :: "int list \<Rightarrow> id_span list \<Rightarrow> id_span list option" where
  "resolve_spans aliases [] = Some []"
| "resolve_spans aliases (sp # rest) =
     (case resolve_alias aliases (is_id sp) of
        None \<Rightarrow> None
      | Some r \<Rightarrow>
          (case resolve_spans aliases rest of
             None \<Rightarrow> None
           | Some rest' \<Rightarrow> Some (sp\<lparr>is_id := r\<rparr> # rest')))"

text \<open>
  \<^verbatim>\<open>IdSpanCompar\<close>, and \<^verbatim>\<open>std::sort\<close> with it. The order in which \<^verbatim>\<open>std::sort\<close> leaves
  spans that compare equal is not specified; the model keeps their order.
\<close>

definition IdSpanCompar :: "id_span \<Rightarrow> id_span \<Rightarrow> bool" where
  "IdSpanCompar a b =
     (if is_id a < is_id b then True
      else if is_id a > is_id b then False
      else is_y a < is_y b)"

fun insert_span :: "id_span \<Rightarrow> id_span list \<Rightarrow> id_span list" where
  "insert_span sp [] = [sp]"
| "insert_span sp (sp2 # rest) =
     (if IdSpanCompar sp2 sp then sp2 # insert_span sp rest else sp # sp2 # rest)"

fun sort_spans :: "id_span list \<Rightarrow> id_span list" where
  "sort_spans [] = []"
| "sort_spans (sp # rest) = insert_span sp (sort_spans rest)"

text \<open>
  ``Build Footprints from spans'': \<open>cur\<close> collects the spans from \<^verbatim>\<open>i0\<close> on, \<open>ident\<close> is
  \<^verbatim>\<open>id\<close>; a footprint is pushed when the id changes and at the end.
\<close>

fun collect_footprints :: "int \<Rightarrow> int \<Rightarrow> int \<Rightarrow> footprint \<Rightarrow> id_span list \<Rightarrow> footprint list" where
  "collect_footprints X0 Y0 ident cur [] = [cur]"
| "collect_footprints X0 Y0 ident cur (sp # rest) =
     (if is_id sp \<noteq> ident
      then cur # collect_footprints X0 Y0 (is_id sp)
                   (addSpan [] (is_y sp + Y0) (is_x0 sp + X0) (is_x1 sp + X0)) rest
      else collect_footprints X0 Y0 ident
             (addSpan cur (is_y sp + Y0) (is_x0 sp + X0) (is_x1 sp + X0)) rest)"

definition build_footprints :: "int \<Rightarrow> int \<Rightarrow> id_span list \<Rightarrow> footprint list" where
  "build_footprints X0 Y0 spans =
     (case spans of
        [] \<Rightarrow> []
      | sp # rest \<Rightarrow> collect_footprints X0 Y0 (is_id sp) [] spans)"

text \<open>
  \<^verbatim>\<open>mimage.at(x, y).image() = val\<close> for a list of positions and values, in order. A
  position outside the image is a write outside the pixel array.
\<close>

fun write_pixels :: "masked_image \<Rightarrow> ((int \<times> int) \<times> real) list \<Rightarrow> error + masked_image" where
  "write_pixels mi [] = Inr mi"
| "write_pixels mi (w # ws) =
     (if in_image mi (fst w) then write_pixels (set_image mi (fst w) (snd w)) ws
      else Inl OutOfBounds)"

text \<open>
  ``reinstate CR pixels'': every pixel of \<^verbatim>\<open>crpixels\<close> but the last one (the dummy), at
  \<^verbatim>\<open>crp->col - mimage.getX0()\<close>, \<^verbatim>\<open>crp->row - mimage.getY0()\<close>. When the initial sweep
  found no pixel, no dummy was pushed and the vector is empty: \<^verbatim>\<open>crpixels.end() - 1\<close> is
  then outside the vector and the loop \<^verbatim>\<open>crp < crpixels.end() - 1\<close> reads through
  \<^verbatim>\<open>crp\<close> outside it.
\<close>

definition reinstate :: "masked_image \<Rightarrow> cr_pixel list \<Rightarrow> error + masked_image" where
  "reinstate mi crpixels =
     (if crpixels = [] then Inl OutOfBounds
      else
        write_pixels mi
          (map (\<lambda>crp. ((crp_col crp - mi_X0 mi, crp_row crp - mi_Y0 mi), crp_val crp))
             (butlast crpixels)))"

text \<open>
  Condition 1. \<^verbatim>\<open>CountsInCR\<close> sums \<^verbatim>\<open>*loc - _bkgd\<close> over the pixels of a footprint; the
  footprint is erased when the sum is below \<^verbatim>\<open>min_e/e_per_dn\<close>, \<^verbatim>\<open>min_e\<close> being an
  \<^verbatim>\<open>int\<close>. Erasing while iterating is modelled as a filter.
\<close>

definition CountsInCR :: "masked_image \<Rightarrow> real \<Rightarrow> footprint \<Rightarrow> real" where
  "CountsInCR mi bkgd foot =
     foldl (\<lambda>sum p. sum + (mi_image mi (to_local mi p) - bkgd)) 0 (footprint_pixels foot)"

definition condition_1 :: "masked_image \<Rightarrow> real \<Rightarrow> int \<Rightarrow> real \<Rightarrow> footprint list \<Rightarrow> footprint list" where
  "condition_1 mi bkgd min_e e_per_dn CRs =
     filter (\<lambda>cr. \<not> CountsInCR mi bkgd cr < real_of_int min_e / e_per_dn) CRs"

subsection \<open>Removal (CR.cc, removeCR)\<close>

text \<open>
  \<^verbatim>\<open>removeCR.apply(*cr)\<close>: the functor is called for each pixel of the footprint with
  the column and row of the span and a locator on the pixel.
\<close>

definition RemoveCR_apply ::
  "interp_env \<Rightarrow> remove_cr \<Rightarrow> masked_image \<times> nat \<Rightarrow> footprint \<Rightarrow> masked_image \<times> nat" where
  "RemoveCR_apply env rc st foot =
     foldl (\<lambda>st p. RemoveCR_call env rc st (to_local (fst st) p) (fst p) (snd p)) st
       (footprint_pixels foot)"

text \<open>The body of the loop of \<^verbatim>\<open>removeCR\<close> for one footprint.\<close>

definition removeCR_step ::
  "interp_env \<Rightarrow> remove_cr \<Rightarrow> mask_pixel \<Rightarrow> bool \<Rightarrow> masked_image \<times> nat \<Rightarrow> footprint \<Rightarrow>
   masked_image \<times> nat" where
  "removeCR_step env rc saturBit grow st cr =
     (if grow \<and> getNpix cr < 100 then
        (let gcr = growFootprint env cr 1;
             saturPixels = footprintAndMask gcr (fst st) saturBit
         in if getNpix saturPixels > 0
            then (setMaskFromFootprint (fst st) saturPixels saturBit, snd st)
            else RemoveCR_apply env rc st cr)
      else RemoveCR_apply env rc st cr)"

text \<open>\<^verbatim>\<open>removeCR\<close>: the footprints are processed from the last to the first.\<close>

definition removeCR ::
  "interp_env \<Rightarrow> masked_image \<times> nat \<Rightarrow> footprint list \<Rightarrow> real \<Rightarrow> mask_pixel \<Rightarrow> mask_pixel \<Rightarrow>
   mask_pixel \<Rightarrow> bool \<Rightarrow> bool \<Rightarrow> masked_image \<times> nat" where
  "removeCR env st CRs bkgd crBit saturBit badMask debias grow =
     (let rc = \<lparr>rc_bkgd = bkgd, rc_ncol = mi_width (fst st), rc_nrow = mi_height (fst st),
                rc_badMask = badMask, rc_debias = debias\<rparr>
      in foldl (removeCR_step env rc saturBit grow) st (rev CRs))"

subsection \<open>Looking near the cosmic rays (CR.cc, checkSpanForCRs and the iteration)\<close>

text \<open>
  The body of the loop of \<^verbatim>\<open>checkSpanForCRs\<close> at column \<open>x\<close> of row \<open>y\<close>: the pixel test,
  the record of the pixel when \<^verbatim>\<open>keep\<close> is set, the overwrite, and the new span of
  \<^verbatim>\<open>extras\<close>.
\<close>

definition checkSpan_pixel ::
  "test_args \<Rightarrow> int \<Rightarrow> real \<Rightarrow> bool \<Rightarrow> int \<Rightarrow> footprint \<times> cr_state \<Rightarrow> int \<Rightarrow> footprint \<times> cr_state" where
  "checkSpan_pixel ta min_sigma cond3_fac keep y acc x =
     (let extras = fst acc; st = snd acc; mi = st_mimage st; loc = (x, y) in
      case is_cr_pixel mi loc min_sigma (ta_thres_h ta) (ta_thres_v ta) (ta_thres_d ta)
             (ta_bkgd ta) (ta_e_per_dn ta) cond3_fac of
        None \<Rightarrow> acc
      | Some corr \<Rightarrow>
          (let st1 = (if keep then
                        (let pc = CRPixel (st_counter st) x y (loc_image mi loc 0 0) (-1)
                         in st\<lparr>st_crpixels := st_crpixels st @ [fst pc], st_counter := snd pc\<rparr>)
                      else st)
           in (addSpan extras (y + mi_Y0 mi) (x + mi_X0 mi) (x + mi_X0 mi),
               st1\<lparr>st_mimage := set_image mi loc corr\<rparr>)))"

definition checkSpanForCRs ::
  "test_args \<Rightarrow> int \<Rightarrow> real \<Rightarrow> bool \<Rightarrow> int \<Rightarrow> int \<Rightarrow> int \<Rightarrow> footprint \<times> cr_state \<Rightarrow>
   footprint \<times> cr_state" where
  "checkSpanForCRs ta min_sigma cond3_fac keep y x0 x1 acc =
     foldl (checkSpan_pixel ta min_sigma cond3_fac keep y) acc [x0 - 1 .. x1 + 1]"

text \<open>
  The body of the loop over the spans of one cosmic ray: the rows \<open>y - 1\<close>, \<open>y\<close>, \<open>y + 1\<close> are
  checked with \<^verbatim>\<open>min_sigma/2\<close> (converted to the \<^verbatim>\<open>int\<close> parameter) and
  \<^verbatim>\<open>cond3_fac = 0\<close>.
\<close>

definition grow_span ::
  "test_args \<Rightarrow> real \<Rightarrow> bool \<Rightarrow> footprint \<times> cr_state \<Rightarrow> span \<Rightarrow> footprint \<times> cr_state" where
  "grow_span ta min_sigma keep acc sp =
     (let mi = st_mimage (snd acc); ncol = mi_width mi; nrow = mi_height mi;
          y = fst sp - mi_Y0 mi
      in if y < 2 \<or> y \<ge> nrow - 2 then acc
         else
           (let x0 = fst (snd sp) - mi_X0 mi; x1 = snd (snd sp) - mi_X0 mi;
                x0' = (if x0 < 2 then 2 else if x0 > ncol - 3 then ncol - 3 else x0);
                x1' = (if x1 < 2 then 2 else if x1 > ncol - 3 then ncol - 3 else x1);
                half = c_trunc (min_sigma / 2);
                acc1 = checkSpanForCRs ta half 0 keep (y - 1) x0' x1' acc;
                acc2 = checkSpanForCRs ta half 0 keep y x0' x1' acc1
            in checkSpanForCRs ta half 0 keep (y + 1) x0' x1' acc2))"

text \<open>
  The variables of the iteration: the state, the list \<^verbatim>\<open>CRs\<close>, the counter \<^verbatim>\<open>nextra\<close>
  (declared before the loop over the passes), and, for the statements about the loop, the
  number of passes run and what \<^verbatim>\<open>nextra\<close> was after each of them.
\<close>

record growth_state =
  gs_state :: cr_state
  gs_CRs :: "footprint list"
  gs_nextra :: int
  gs_trace :: "int list"

text \<open>
  The body of the loop over the cosmic rays, for the footprint \<open>cr\<close>; \<open>acc\<close> holds the
  state, the footprints already gone through, and \<^verbatim>\<open>nextra\<close>.
\<close>

definition grow_cr ::
  "interp_env \<Rightarrow> test_args \<Rightarrow> real \<Rightarrow> bool \<Rightarrow> mask_pixel \<Rightarrow>
   cr_state \<times> footprint list \<times> int \<Rightarrow> footprint \<Rightarrow> cr_state \<times> footprint list \<times> int" where
  "grow_cr env ta min_sigma keep interpBit acc cr =
     (let st = fst acc; done = fst (snd acc); nextra = snd (snd acc);
          om = footprintAndMask cr (st_mimage st) interpBit;
          npix = getNpix om
      in if npix = getNpix cr then (st, done @ [cr], nextra)
         else
           (let r = foldl (grow_span ta min_sigma keep) ([], st) cr;
                extra = fst r
            in if length extra > 0
               then (snd r, done @ [normalize env (cr @ extra)], nextra + getNpix extra)
               else (snd r, done @ [cr], nextra)))"

definition growth_pass ::
  "interp_env \<Rightarrow> test_args \<Rightarrow> real \<Rightarrow> bool \<Rightarrow> mask_pixel \<Rightarrow> growth_state \<Rightarrow> growth_state" where
  "growth_pass env ta min_sigma keep interpBit gs =
     (let r = foldl (grow_cr env ta min_sigma keep interpBit)
                (gs_state gs, [], gs_nextra gs) (gs_CRs gs)
      in \<lparr>gs_state = fst r, gs_CRs = fst (snd r), gs_nextra = snd (snd r),
          gs_trace = gs_trace gs @ [snd (snd r)]\<rparr>)"

text \<open>
  \<^verbatim>\<open>for (int i = 0; i != niteration; ++i) { ...; if (nextra == 0) break; }\<close> with \<open>n\<close>
  passes still to go.
\<close>

fun growth_loop ::
  "interp_env \<Rightarrow> test_args \<Rightarrow> real \<Rightarrow> bool \<Rightarrow> mask_pixel \<Rightarrow> nat \<Rightarrow> growth_state \<Rightarrow> growth_state" where
  "growth_loop env ta min_sigma keep interpBit 0 gs = gs"
| "growth_loop env ta min_sigma keep interpBit (Suc n) gs =
     (let gs' = growth_pass env ta min_sigma keep interpBit gs
      in if gs_nextra gs' = 0 then gs' else growth_loop env ta min_sigma keep interpBit n gs')"

text \<open>
  With a negative \<^verbatim>\<open>niteration\<close> the test \<^verbatim>\<open>i != niteration\<close> never ends the loop: it
  ends after the first pass if \<^verbatim>\<open>nextra\<close> is 0 then, and never otherwise, since
  \<^verbatim>\<open>nextra\<close> does not decrease.
\<close>

definition growth ::
  "interp_env \<Rightarrow> test_args \<Rightarrow> real \<Rightarrow> bool \<Rightarrow> mask_pixel \<Rightarrow> int \<Rightarrow> growth_state \<Rightarrow>
   growth_state option" where
  "growth env ta min_sigma keep interpBit niteration gs =
     (if niteration \<ge> 0
      then Some (growth_loop env ta min_sigma keep interpBit (nat niteration) gs)
      else (let gs' = growth_pass env ta min_sigma keep interpBit gs
            in if gs_nextra gs' = 0 then Some gs' else None))"

subsection \<open>The whole call (CR.cc, findCosmicRays)\<close>

text \<open>The values read from the policy, and the bits of the four mask planes.\<close>

record policy =
  pol_e_per_dn :: real
  pol_min_sigma :: real
  pol_min_e :: real
  pol_cond3_fac :: real
  pol_cond3_fac2 :: real
  pol_niteration :: int

record mask_planes =
  badBit :: mask_pixel
  crBit :: mask_pixel
  interpBit :: mask_pixel
  saturBit :: mask_pixel

text \<open>
  What a call leaves: the returned footprints, the state with the image, and what
  \<^verbatim>\<open>nextra\<close> was after each pass of the iteration.
\<close>

record find_result =
  fr_CRs :: "footprint list"
  fr_state :: cr_state
  fr_trace :: "int list"

definition test_args_of :: "(int \<Rightarrow> int \<Rightarrow> real) \<Rightarrow> real \<Rightarrow> policy \<Rightarrow> test_args" where
  "test_args_of psf_getValue bkgd pol =
     \<lparr>ta_thres_h = pol_cond3_fac2 pol * psf_getValue 0 1,
      ta_thres_v = pol_cond3_fac2 pol * psf_getValue 1 0,
      ta_thres_d = pol_cond3_fac2 pol * psf_getValue 1 1,
      ta_bkgd = bkgd,
      ta_e_per_dn = pol_e_per_dn pol\<rparr>"

text \<open>
  From the initial sweep to the footprints: the sweep (the \<^verbatim>\<open>double min_sigma\<close> converted
  to the \<^verbatim>\<open>int\<close> parameter of the pixel test), the dummy pixel
  \<^verbatim>\<open>CRPixel(0, -1, 0, -1)\<close> and the spans, the aliases, the sort and the footprints.
\<close>

definition find_footprints ::
  "test_args \<Rightarrow> policy \<Rightarrow> mask_pixel \<Rightarrow> masked_image \<Rightarrow> int \<Rightarrow>
   error + (cr_state \<times> footprint list)" where
  "find_footprints ta pol badMask mimage counter =
     (let st = initial_sweep ta (c_trunc (pol_min_sigma pol)) (pol_cond3_fac pol) badMask
                 \<lparr>st_mimage = mimage, st_crpixels = [], st_counter = counter, st_nrand = 0\<rparr>;
          s0 = \<lparr>bs_ncr = 0, bs_aliases = [0], bs_spans = [], bs_x0 = -1, bs_x1 = -1, bs_y = -1\<rparr>;
          dummy = CRPixel (st_counter st) 0 (-1) 0 (-1)
      in case (if length (st_crpixels st) > 0
               then build_spans s0 (st_crpixels st @ [fst dummy])
               else Inr (s0, st_crpixels st)) of
           Inl e \<Rightarrow> Inl e
         | Inr r \<Rightarrow>
             (case touch_outer (bs_aliases (fst r)) (bs_spans (fst r)) of
                None \<Rightarrow> Inl NoReturn
              | Some aliases \<Rightarrow>
                  (case resolve_spans aliases (bs_spans (fst r)) of
                     None \<Rightarrow> Inl NoReturn
                   | Some spans \<Rightarrow>
                       Inr (st\<lparr>st_crpixels := snd r,
                               st_counter := (if length (st_crpixels st) > 0 then snd dummy
                                              else st_counter st)\<rparr>,
                            build_footprints (mi_X0 mimage) (mi_Y0 mimage) (sort_spans spans)))))"

text \<open>
  The end of the call, after the iteration: the \<^verbatim>\<open>CR\<close> bit, then either the initial
  values are written back (\<^verbatim>\<open>keep\<close>) or the final removal with \<^verbatim>\<open>grow = true\<close> and the
  second \<^verbatim>\<open>setMaskFromFootprintList(mimage.getMask(), CRs, crBit)\<close>. With \<^verbatim>\<open>keep\<close>,
  \<^verbatim>\<open>sort\<close> puts all pixels but the last into birth order and the loop from
  \<^verbatim>\<open>rbegin() + 1\<close> writes them back from the last to the first; on an empty vector
  \<^verbatim>\<open>end() - 1\<close> is outside it.
\<close>

definition finish ::
  "interp_env \<Rightarrow> mask_planes \<Rightarrow> real \<Rightarrow> bool \<Rightarrow> growth_state \<Rightarrow> error + find_result" where
  "finish env planes bkgd keep gs =
     (let st = gs_state gs; CRs = gs_CRs gs;
          badMask = badBit planes OR interpBit planes OR saturBit planes;
          mi1 = setMaskFromFootprintList (st_mimage st) CRs (crBit planes)
      in if keep then
           (if st_crpixels st = [] then Inl OutOfBounds
            else
              (let sorted = sort_key crp_i (butlast (st_crpixels st)) @ [last (st_crpixels st)]
               in case write_pixels mi1
                         (map (\<lambda>crp. ((crp_col crp, crp_row crp), crp_val crp))
                            (rev (butlast sorted))) of
                    Inl e \<Rightarrow> Inl e
                  | Inr mi2 \<Rightarrow>
                      Inr \<lparr>fr_CRs = CRs,
                           fr_state = st\<lparr>st_mimage := mi2, st_crpixels := sorted\<rparr>,
                           fr_trace = gs_trace gs\<rparr>))
         else
           (let r = removeCR env (mi1, st_nrand st) CRs bkgd (crBit planes) (saturBit planes)
                      badMask True True;
                mi3 = setMaskFromFootprintList (fst r) CRs (crBit planes)
            in Inr \<lparr>fr_CRs = CRs,
                    fr_state = st\<lparr>st_mimage := mi3, st_nrand := snd r\<rparr>,
                    fr_trace = gs_trace gs\<rparr>))"

text \<open>
  \<^verbatim>\<open>findCosmicRays\<close>. \<open>psf_getValue\<close> is the PSF's \<^verbatim>\<open>getValue\<close>, \<open>counter\<close> the value of
  the static counter of \<^verbatim>\<open>CRPixel\<close> when the call starts.
\<close>

definition findCosmicRays ::
  "interp_env \<Rightarrow> mask_planes \<Rightarrow> int \<Rightarrow> masked_image \<Rightarrow> (int \<Rightarrow> int \<Rightarrow> real) \<Rightarrow> real \<Rightarrow> policy \<Rightarrow>
   bool \<Rightarrow> error + find_result" where
  "findCosmicRays env planes counter mimage psf_getValue bkgd pol keep =
     (if \<not> pol_e_per_dn pol > 0 then Inl AssertionFailed
      else
        (let min_e = c_trunc (pol_min_e pol);
             ta = test_args_of psf_getValue bkgd pol;
             badMask = badBit planes OR interpBit planes OR saturBit planes
         in case find_footprints ta pol badMask mimage counter of
              Inl e \<Rightarrow> Inl e
            | Inr found \<Rightarrow>
                (case reinstate (st_mimage (fst found)) (st_crpixels (fst found)) of
                   Inl e \<Rightarrow> Inl e
                 | Inr mi1 \<Rightarrow>
                     (let CRs = condition_1 mi1 bkgd min_e (pol_e_per_dn pol) (snd found);
                          r = removeCR env (mi1, 0) CRs bkgd (crBit planes) (saturBit planes)
                                badMask True False;
                          gs0 = \<lparr>gs_state = (fst found)\<lparr>st_mimage := fst r, st_nrand := snd r\<rparr>,
                                 gs_CRs = CRs, gs_nextra = 0, gs_trace = []\<rparr>
                      in case growth env ta (pol_min_sigma pol) keep (interpBit planes)
                                (pol_niteration pol) gs0 of
                           None \<Rightarrow> Inl NoReturn
                         | Some gs \<Rightarrow> finish env planes bkgd keep gs))))"

subsection \<open>Example images\<close>

text \<open>
  A \<open>w \<times> h\<close> masked image at the origin with the same value and variance everywhere and an
  empty mask; single pixels are then set with \<open>set_image\<close>.
\<close>

definition flat_image :: "int \<Rightarrow> int \<Rightarrow> real \<Rightarrow> real \<Rightarrow> masked_image" where
  "flat_image w h v var =
     \<lparr>mi_X0 = 0, mi_Y0 = 0, mi_width = w, mi_height = h,
      mi_image = (\<lambda>p. v), mi_variance = (\<lambda>p. var), mi_mask = (\<lambda>p. 0)\<rparr>"

text \<open>
  A pixel of 100 counts between a western and an eastern neighbour of 1000 counts, on a
  background of 0 with variance 1.
\<close>

definition ridge_image :: masked_image where
  "ridge_image =
     set_image (set_image (set_image (flat_image 7 7 0 1) (3, 3) 100) (2, 3) 1000) (4, 3) 1000"

text \<open>Scenario S1: a single pixel of 1000 counts on a background of 0 with variance 1.\<close>

definition S1_image :: masked_image where
  "S1_image = set_image (flat_image 7 7 0 1) (3, 3) 1000"

text \<open>
  The functor as \<^verbatim>\<open>findCosmicRays\<close> builds it for a \<open>7 \<times> 7\<close> image with background 0, the
  planes \<^verbatim>\<open>BAD\<close>, \<^verbatim>\<open>SAT\<close>, \<^verbatim>\<open>INTRP\<close> being the bits 1, 2 and 4.
\<close>

definition S1_remove_cr :: remove_cr where
  "S1_remove_cr = \<lparr>rc_bkgd = 0, rc_ncol = 7, rc_nrow = 7, rc_badMask = 7, rc_debias = True\<rparr>"

text \<open>
  The rest of scenario S1: the mask planes (\<^verbatim>\<open>BAD\<close>, \<^verbatim>\<open>SAT\<close>, \<^verbatim>\<open>INTRP\<close>, \<^verbatim>\<open>CR\<close> as the
  bits 1, 2, 4, 8), the PSF values and the policy.
\<close>

definition S1_planes :: mask_planes where
  "S1_planes = \<lparr>badBit = 1, crBit = 8, interpBit = 4, saturBit = 2\<rparr>"

definition S1_psf :: "int \<Rightarrow> int \<Rightarrow> real" where
  "S1_psf dx dy = (if dx = 0 \<and> dy = 0 then 1 else if dx = 0 \<or> dy = 0 then 1/2 else 1/4)"

definition S1_policy :: policy where
  "S1_policy = \<lparr>pol_e_per_dn = 1, pol_min_sigma = 5, pol_min_e = 100, pol_cond3_fac = 2,
                 pol_cond3_fac2 = 1/2, pol_niteration = 0\<rparr>"

text \<open>The arguments of the pixel test that \<open>test_args_of\<close> computes in this scenario.\<close>

definition S1_ta :: test_args where
  "S1_ta = \<lparr>ta_thres_h = 1/4, ta_thres_v = 1/4, ta_thres_d = 1/8, ta_bkgd = 0, ta_e_per_dn = 1\<rparr>"

text \<open>
  The two calls of the interpolation functor at the pixel \<open>(3, 3)\<close> in scenario S1: in the
  first removal, and in the final removal after the \<^verbatim>\<open>CR\<close> bit has been set.
\<close>

definition S1_first :: "interp_env \<Rightarrow> masked_image \<times> nat" where
  "S1_first env = RemoveCR_call env S1_remove_cr (S1_image, 0) (3, 3) 3 3"

definition S1_second :: "interp_env \<Rightarrow> masked_image \<times> nat" where
  "S1_second env =
     RemoveCR_call env S1_remove_cr
       (or_mask (fst (S1_first env)) (3, 3) 8, snd (S1_first env)) (3, 3) 3 3"

text \<open>Reading the outcome of a call: nothing when the call does not return normally.\<close>

definition result_CRs :: "error + find_result \<Rightarrow> footprint list option" where
  "result_CRs res = (case res of Inl e \<Rightarrow> None | Inr r \<Rightarrow> Some (fr_CRs r))"

definition result_mask :: "error + find_result \<Rightarrow> int \<times> int \<Rightarrow> mask_pixel option" where
  "result_mask res p =
     (case res of Inl e \<Rightarrow> None | Inr r \<Rightarrow> Some (mi_mask (st_mimage (fr_state r)) p))"

definition result_image :: "error + find_result \<Rightarrow> int \<times> int \<Rightarrow> real option" where
  "result_image res p =
     (case res of Inl e \<Rightarrow> None | Inr r \<Rightarrow> Some (mi_image (st_mimage (fr_state r)) p))"

definition result_trace :: "error + find_result \<Rightarrow> int list option" where
  "result_trace res = (case res of Inl e \<Rightarrow> None | Inr r \<Rightarrow> Some (fr_trace r))"

text \<open>The state and the pixels after the spans of scenario S1 have been built.\<close>

definition S1_found :: cr_state where
  "S1_found =
     \<lparr>st_mimage = set_image S1_image (3, 3) 0,
      st_crpixels = [\<lparr>crp_id = 1, crp_col = 3, crp_row = 3, crp_val = 1000, crp_i = 1\<rparr>,
                     \<lparr>crp_id = -1, crp_col = 0, crp_row = -1, crp_val = 0, crp_i = 2\<rparr>],
      st_counter = 2, st_nrand = 0\<rparr>"

text \<open>Scenario S4 with a pixel value that is not a whole number: 1000.5 counts at \<open>(3, 3)\<close>.\<close>

definition fractional_image :: masked_image where
  "fractional_image = set_image (flat_image 7 7 0 1) (3, 3) (2001 / 2)"

text \<open>
  A \<^verbatim>\<open>growFootprint\<close> for the examples: every pixel of the footprint and its four
  neighbours at distance \<open>n\<close>, as single-pixel spans.
\<close>

definition grow_cross :: "footprint \<Rightarrow> int \<Rightarrow> footprint" where
  "grow_cross foot n =
     concat (map (\<lambda>p. [(snd p, fst p, fst p), (snd p - n, fst p, fst p), (snd p + n, fst p, fst p),
                         (snd p, fst p - n, fst p - n), (snd p, fst p + n, fst p + n)])
               (footprint_pixels foot))"

text \<open>
  Modelled from the spec: the part of \<^verbatim>\<open>Interp.h\<close> that a run of the iteration needs
  fixed. In \<open>stub_env\<close> the coefficients and the bias are the specification's
  (0.7737, -0.2737, 0.7874, -0.2874, 0.5642), and the long-range interpolator fails in both
  directions (it returns \<^verbatim>\<open>numeric_limits<float>::min()\<close>), which is the
  specification's last fallback, \<open>bkgd + sqrt var * r\<close>; every \<open>r\<close> that
  \<^verbatim>\<open>rand()/(float)RAND_MAX\<close> yields is one half. Of the image library,
  \<^verbatim>\<open>growFootprint\<close> is \<open>grow_cross\<close> and \<^verbatim>\<open>normalize\<close> leaves the spans as they are.
\<close>

definition stub_env :: interp_env where
  "stub_env =
     \<lparr>lpc_1_c1 = 7737 / 10000, lpc_1_c2 = - 2737 / 10000,
      lpc_1s2_c1 = 7874 / 10000, lpc_1s2_c2 = - 2874 / 10000,
      min_2Gaussian_bias = 5642 / 10000,
      singlePixel = (\<lambda>x y mi horizontal minval. 1 / 2 ^ 126),
      pixel_max = (2 - 1 / 2 ^ 23) * 2 ^ 127,
      pixel_min = 1 / 2 ^ 126,
      gaussdev = (\<lambda>n. 1 / 2),
      growFootprint = grow_cross,
      normalize = (\<lambda>foot. foot)\<rparr>"

text \<open>
  Scenario S1 with a second, faint pixel of 3 counts next to the cosmic ray, and with
  three iterations.
\<close>

definition faint_image :: masked_image where
  "faint_image = set_image (set_image (flat_image 7 7 0 1) (4, 3) 3) (3, 3) 1000"

definition three_pass_policy :: policy where
  "three_pass_policy = \<lparr>pol_e_per_dn = 1, pol_min_sigma = 5, pol_min_e = 100, pol_cond3_fac = 2,
                 pol_cond3_fac2 = 1/2, pol_niteration = 3\<rparr>"

text \<open>
  The states of that run: after the spans have been built, after the first removal, and
  after the first pass of the iteration has replaced the faint pixel.
\<close>

definition faint_found :: cr_state where
  "faint_found =
     \<lparr>st_mimage = set_image faint_image (3, 3) 0,
      st_crpixels = [\<lparr>crp_id = 1, crp_col = 3, crp_row = 3, crp_val = 1000, crp_i = 1\<rparr>,
                     \<lparr>crp_id = -1, crp_col = 0, crp_row = -1, crp_val = 0, crp_i = 2\<rparr>],
      st_counter = 2, st_nrand = 0\<rparr>"

definition faint_removed :: cr_state where
  "faint_removed = faint_found\<lparr>st_mimage := set_image faint_image (3, 3) (1 / 2), st_nrand := Suc 0\<rparr>"

definition faint_grown :: cr_state where
  "faint_grown = faint_removed\<lparr>st_mimage := set_image (set_image faint_image (3, 3) (1 / 2)) (4, 3) 0\<rparr>"

text \<open>
  Two images agree on the mask bits \<open>b\<close>: every pixel has the same bits of \<open>b\<close> in both.
\<close>

definition same_plane :: "mask_pixel \<Rightarrow> masked_image \<Rightarrow> masked_image \<Rightarrow> bool" where
  "same_plane b mi mi' = (\<forall>p. mi_mask mi' p AND b = mi_mask mi p AND b)"

subsection \<open>Building the kernel (SpatialModelPsf.cc, createKernelFromPsfCandidates)\<close>

text \<open>
  An \<^verbatim>\<open>Image\<close>: dimensions and pixels, the pixel \<open>(x, y)\<close> being the \<open>x\<close>-th of row \<open>y\<close>.
\<close>

record plain_image =
  im_width :: int
  im_height :: int
  im_pix :: "int \<times> int \<Rightarrow> real"

text \<open>\<^verbatim>\<open>im.row_begin(i)\<close> advanced \<open>j\<close> times.\<close>

definition row_begin :: "plain_image \<Rightarrow> int \<Rightarrow> int \<Rightarrow> real" where
  "row_begin im i j = im_pix im (j, i)"

text \<open>
  The first pair of loops (``Bottom and Top borders''): \<^verbatim>\<open>ptrB\<close> and \<^verbatim>\<open>ptrT\<close> both advance
  with \<open>j\<close>.
\<close>

definition sum_bottom_top :: "int \<Rightarrow> plain_image \<Rightarrow> real \<Rightarrow> real" where
  "sum_bottom_top bkg_border im sum0 =
     foldl (\<lambda>sum i.
              foldl (\<lambda>sum j. sum + (row_begin im i j + row_begin im (im_height im - i - 1) j))
                sum [0 .. im_width im - 1])
       sum0 [0 .. bkg_border - 1]"

text \<open>
  The second pair of loops (``Left and Right borders''): \<^verbatim>\<open>ptrL = im.row_begin(i)\<close>
  advances with \<open>j\<close>; \<^verbatim>\<open>ptrR = im.row_begin(im.getWidth() - i - 1)\<close> is not advanced.
\<close>

definition sum_left_right :: "int \<Rightarrow> plain_image \<Rightarrow> real \<Rightarrow> real" where
  "sum_left_right bkg_border im sum0 =
     foldl (\<lambda>sum i.
              foldl (\<lambda>sum j. sum + (row_begin im i j + row_begin im (im_width im - i - 1) 0))
                sum [0 .. bkg_border - 1])
       sum0 [bkg_border .. im_height im - bkg_border - 1]"

text \<open>
  The value of \<^verbatim>\<open>sum\<close> after the division, which is then subtracted from the image. (The
  counter \<^verbatim>\<open>n\<close> of the source is never read.) The divisor is the \<^verbatim>\<open>int\<close>
  \<^verbatim>\<open>2*(bkg_border*im.getWidth() + bkg_border*(im.getHeight() - 2*bkg_border))\<close>. It is 0
  for an image of \<open>1 \<times> 1\<close> or of \<open>2 \<times> 2\<close> pixels, among others; the quotient of the
  \<^verbatim>\<open>double\<close>s is then an infinity or a NaN and not a number: that is \<open>None\<close> here.
\<close>

definition background_level :: "int \<Rightarrow> plain_image \<Rightarrow> real option" where
  "background_level bkg_border im =
     (if 2 * (bkg_border * im_width im + bkg_border * (im_height im - 2 * bkg_border)) = 0
      then None
      else Some (sum_left_right bkg_border im (sum_bottom_top bkg_border im 0) /
                 real_of_int (2 * (bkg_border * im_width im +
                                   bkg_border * (im_height im - 2 * bkg_border)))))"

text \<open>
  An image after the subtraction: where the level subtracted is not a number, no pixel of
  the image is one any more (\<open>None\<close>).
\<close>

record basis_image =
  bi_width :: int
  bi_height :: int
  bi_pix :: "int \<times> int \<Rightarrow> real option"

text \<open>\<^verbatim>\<open>*eigenImages[k] -= sum\<close>.\<close>

definition image_minus :: "plain_image \<Rightarrow> real option \<Rightarrow> basis_image" where
  "image_minus im c =
     \<lparr>bi_width = im_width im, bi_height = im_height im,
      bi_pix = (\<lambda>p. case c of None \<Rightarrow> None | Some v \<Rightarrow> Some (im_pix im p - v))\<rparr>"

text \<open>
  The loop over the kept eigen-images; \<^verbatim>\<open>bkg_border\<close> is declared before the loop and
  keeps its value from one image to the next.
\<close>

fun subtract_backgrounds :: "int \<Rightarrow> plain_image list \<Rightarrow> basis_image list" where
  "subtract_backgrounds bkg_border [] = []"
| "subtract_backgrounds bkg_border (im # ims) =
     (let b1 = (if bkg_border > im_width im then im_width im else bkg_border);
          b2 = (if b1 > im_height im then im_height im else b1)
      in image_minus im (background_level b2 im) # subtract_backgrounds b2 ims)"

text \<open>
  \<^verbatim>\<open>PolynomialFunction2<double>(spatialOrder)\<close> of the image library, as its list of
  parameters: \<open>(order + 1) (order + 2) / 2\<close> of them, all 0 (orders are not negative).
  \<^verbatim>\<open>setParameter(0, 1.0)\<close> then sets the first.
\<close>

definition PolynomialFunction2 :: "int \<Rightarrow> real list" where
  "PolynomialFunction2 order = replicate (nat ((order + 1) * (order + 2) div 2)) 0"

definition setParameter :: "real list \<Rightarrow> nat \<Rightarrow> real \<Rightarrow> real list" where
  "setParameter f k v = f[k := v]"

text \<open>A \<^verbatim>\<open>LinearCombinationKernel\<close>: its basis images and its spatial functions.\<close>

record linear_combination_kernel =
  kernelList :: "basis_image list"
  spatialFunctionList :: "real list list"

text \<open>
  The function after the principal-component analysis, which belongs to the image
  library: \<open>eigenImages\<close> and \<open>eigenValues\<close> are what \<^verbatim>\<open>imagePca\<close> returns. Reading
  \<^verbatim>\<open>eigenImages[k]\<close> beyond the vector is undefined in C++.
\<close>

definition createKernelFromPsfCandidates ::
  "plain_image list \<Rightarrow> real list \<Rightarrow> int \<Rightarrow> int \<Rightarrow>
   error + (linear_combination_kernel \<times> real list)" where
  "createKernelFromPsfCandidates eigenImages eigenValues nEigenComponents spatialOrder =
     (let nEigen = int (length eigenValues);
          ncomp = (if nEigenComponents \<le> 0 \<or> nEigen < nEigenComponents then nEigen
                   else nEigenComponents)
      in if int (length eigenImages) < ncomp then Inl OutOfBounds
         else
           (let kept = subtract_backgrounds 2 (take (nat ncomp) eigenImages);
                spatialFunction = setParameter (PolynomialFunction2 spatialOrder) 0 1
            in Inr (\<lparr>kernelList = kept,
                      spatialFunctionList = replicate (nat ncomp) spatialFunction\<rparr>,
                    eigenValues)))"

text \<open>
  The outer border frame of width \<open>b\<close> as the specification words it, and the mean of its
  pixels.
\<close>

definition border_frame :: "plain_image \<Rightarrow> int \<Rightarrow> (int \<times> int) list" where
  "border_frame im b =
     filter (\<lambda>p. fst p < b \<or> im_width im - b \<le> fst p \<or> snd p < b \<or> im_height im - b \<le> snd p)
       (concat (map (\<lambda>y. map (\<lambda>x. (x, y)) [0 .. im_width im - 1]) [0 .. im_height im - 1]))"

definition border_mean :: "plain_image \<Rightarrow> int \<Rightarrow> real" where
  "border_mean im b =
     (\<Sum>p\<leftarrow>border_frame im b. im_pix im p) / real (length (border_frame im b))"

text \<open>
  A \<open>5 \<times> 5\<close> eigen-image that is 0 except for the pixel \<open>(4, 2)\<close> of its right border.
\<close>

definition right_border_image :: plain_image where
  "right_border_image =
     \<lparr>im_width = 5, im_height = 5, im_pix = (\<lambda>p. if p = (4, 2) then 24 else 0)\<rparr>"

text \<open>An eigen-image of a single pixel.\<close>

definition one_pixel_image :: plain_image where
  "one_pixel_image = \<lparr>im_width = 1, im_height = 1, im_pix = (\<lambda>p. 1)\<rparr>"

text \<open>
  Reading the result: the pixel \<open>p\<close> of basis image \<open>k\<close> (\<open>None\<close> when there is no such
  image or when the pixel is not a number), and coefficient \<open>j\<close> of spatial function \<open>k\<close>.
\<close>

definition kernel_pixel ::
  "error + (linear_combination_kernel \<times> real list) \<Rightarrow> nat \<Rightarrow> int \<times> int \<Rightarrow> real option" where
  "kernel_pixel res k p =
     (case res of
        Inl e \<Rightarrow> None
      | Inr r \<Rightarrow> (if k < length (kernelList (fst r))
                  then bi_pix (kernelList (fst r) ! k) p else None))"

definition spatial_coefficient ::
  "error + (linear_combination_kernel \<times> real list) \<Rightarrow> nat \<Rightarrow> nat \<Rightarrow> real option" where
  "spatial_coefficient res k j =
     (case res of
        Inl e \<Rightarrow> None
      | Inr r \<Rightarrow> (if k < length (spatialFunctionList (fst r)) \<and>
                     j < length (spatialFunctionList (fst r) ! k)
                  then Some (spatialFunctionList (fst r) ! k ! j) else None))"

subsection \<open>Fitting the spatial kernel (SpatialModelPsf.cc, fitSpatialKernelFromPsfCandidates)\<close>

text \<open>
  A \<^verbatim>\<open>PsfCandidate\<close> as the visitors see it: whether the cast of the
  \<^verbatim>\<open>SpatialCellCandidate\<close> succeeds, the positions, the postage stamp that \<^verbatim>\<open>getImage\<close>
  returns (\<open>None\<close> when it throws \<^verbatim>\<open>LengthErrorException\<close>), and the cached amplitude,
  variance and chi-squared. A \<^verbatim>\<open>SpatialCellSet\<close> is the list of its cells, each the list of
  its candidates in visiting order.
\<close>

record psf_candidate =
  cand_isPsfCandidate :: bool
  cand_xCenter :: real
  cand_yCenter :: real
  cand_xAstrom :: real
  cand_yAstrom :: real
  cand_image :: "real data_pixel list list option"
  cand_amplitude :: real
  cand_var :: real
  cand_chi2 :: real

text \<open>
  A \<^verbatim>\<open>Kernel\<close>: whether it is a \<^verbatim>\<open>LinearCombinationKernel\<close>, the number of its basis
  kernels and of the parameters of each spatial function, and the spatial parameters. The
  source's variable \<^verbatim>\<open>kernel\<close> is written \<open>krn\<close>.
\<close>

record kernel_obj =
  k_isLinearCombination :: bool
  k_nKernelParameters :: nat
  k_nSpatialParameters :: nat
  k_spatialParameters :: "real list list"

text \<open>
  What the fit takes from the image library, from Eigen and from Minuit: the image of the
  kernel at a position and the images of its basis kernels, \<^verbatim>\<open>innerProduct\<close> with a
  border, the derivatives \<^verbatim>\<open>getDFuncDParameters\<close> of a spatial function, the border width
  of the candidates, the arithmetic of \<^verbatim>\<open>fitKernel\<close> (\<open>fit_arith\<close>, on values that the rest
  of the fit takes as reals), \<^verbatim>\<open>A.ldlt().solve(b, &x)\<close> with the flag it returns and the vector it
  leaves in \<open>x\<close>, and \<^verbatim>\<open>migrad\<close>, which returns \<^verbatim>\<open>IsValid()\<close>, \<^verbatim>\<open>Fval()\<close>, whether
  that value is finite, and the parameter values.
\<close>

record fit_env =
  computeImage :: "kernel_obj \<Rightarrow> real \<Rightarrow> real \<Rightarrow> real list list"
  basisImage :: "kernel_obj \<Rightarrow> nat \<Rightarrow> real list list"
  innerProduct :: "real list list \<Rightarrow> real list list \<Rightarrow> int \<Rightarrow> real"
  getDFuncDParameters :: "kernel_obj \<Rightarrow> nat \<Rightarrow> real \<Rightarrow> real \<Rightarrow> real list"
  getBorderWidth :: int
  fit_arith :: "real arith"
  ldlt_solve :: "nat \<Rightarrow> (nat \<times> nat \<Rightarrow> real) \<Rightarrow> (nat \<Rightarrow> real) \<Rightarrow> bool \<times> real list"
  migrad :: "(real list \<Rightarrow> error + real) \<Rightarrow> real list \<Rightarrow> real \<Rightarrow>
             error + (bool \<times> real \<times> bool \<times> real list)"

text \<open>
  The exceptions that \<^verbatim>\<open>catch(lsst::pex::exceptions::Exception &)\<close> catches; a failed
  \<^verbatim>\<open>assert\<close> is not one of them.
\<close>

definition is_exception :: "error \<Rightarrow> bool" where
  "is_exception e = (e = RangeErrorException \<or> e = LogicErrorException \<or> e = LengthErrorException)"

text \<open>
  \<^verbatim>\<open>visitCandidates\<close> of one cell's candidates: \<^verbatim>\<open>processCandidate\<close> is \<open>f\<close>, which
  returns the visitor's new state and the candidate as it leaves it. With
  \<^verbatim>\<open>ignoreExceptions\<close> an exception of a candidate is dropped and the visit goes on.
\<close>

fun visit_list ::
  "('s \<Rightarrow> psf_candidate \<Rightarrow> error + ('s \<times> psf_candidate)) \<Rightarrow> bool \<Rightarrow> 's \<Rightarrow>
   psf_candidate list \<Rightarrow> error + ('s \<times> psf_candidate list)" where
  "visit_list f ignoreExceptions s [] = Inr (s, [])"
| "visit_list f ignoreExceptions s (c # cs) =
     (case f s c of
        Inl e \<Rightarrow>
          (if ignoreExceptions \<and> is_exception e then
             (case visit_list f ignoreExceptions s cs of
                Inl e' \<Rightarrow> Inl e'
              | Inr r \<Rightarrow> Inr (fst r, c # snd r))
           else Inl e)
      | Inr sc \<Rightarrow>
          (case visit_list f ignoreExceptions (fst sc) cs of
             Inl e' \<Rightarrow> Inl e'
           | Inr r \<Rightarrow> Inr (fst r, snd sc # snd r)))"

text \<open>
  The visit of a cell set: in each cell the first \<open>nMaxPerCell\<close> candidates, or all of them
  when \<open>nMaxPerCell \<le> 0\<close>.
\<close>

fun visit_cells ::
  "('s \<Rightarrow> psf_candidate \<Rightarrow> error + ('s \<times> psf_candidate)) \<Rightarrow> int \<Rightarrow> bool \<Rightarrow> 's \<Rightarrow>
   psf_candidate list list \<Rightarrow> error + ('s \<times> psf_candidate list list)" where
  "visit_cells f nMaxPerCell ignoreExceptions s [] = Inr (s, [])"
| "visit_cells f nMaxPerCell ignoreExceptions s (cell # cells) =
     (let n = (if nMaxPerCell > 0 then nat nMaxPerCell else length cell) in
      case visit_list f ignoreExceptions s (take n cell) of
        Inl e \<Rightarrow> Inl e
      | Inr r \<Rightarrow>
          (case visit_cells f nMaxPerCell ignoreExceptions (fst r) cells of
             Inl e \<Rightarrow> Inl e
           | Inr r' \<Rightarrow> Inr (fst r', (snd r @ drop n cell) # snd r')))"

text \<open>
  \<^verbatim>\<open>evalChi2Visitor::processCandidate\<close>; the visitor's state is \<^verbatim>\<open>_chi2\<close>.
\<close>

definition evalChi2_processCandidate ::
  "fit_env \<Rightarrow> kernel_obj \<Rightarrow> real \<Rightarrow> psf_candidate \<Rightarrow> error + (real \<times> psf_candidate)" where
  "evalChi2_processCandidate env krn chi2 c =
     (if \<not> cand_isPsfCandidate c then Inl LogicErrorException
      else
        (let kImage = computeImage env krn (cand_xAstrom c) (cand_yAstrom c) in
         case cand_image c of
           None \<Rightarrow> Inr (chi2, c)
         | Some data \<Rightarrow>
             (case fitKernel (fit_arith env) kImage data of
                Inl e \<Rightarrow> Inl e
              | Inr result \<Rightarrow>
                  Inr (fp_add (fit_arith env) chi2 (fst result),
                       c\<lparr>cand_chi2 := fst result, cand_amplitude := snd result\<rparr>))))"

text \<open>
  \<^verbatim>\<open>setSpatialParameters\<close>: the flat vector is cut into one list of spatial parameters
  per component. It asserts that the sizes agree.
\<close>

definition setSpatialParameters :: "kernel_obj \<Rightarrow> real list \<Rightarrow> error + kernel_obj" where
  "setSpatialParameters krn coeffs =
     (let nComponents = k_nKernelParameters krn;
          nSpatialParams = k_nSpatialParameters krn
      in if nComponents * nSpatialParams \<noteq> length coeffs then Inl AssertionFailed
         else Inr (krn\<lparr>k_spatialParameters :=
                     map (\<lambda>i. map (\<lambda>j. coeffs ! (i * nSpatialParams + j)) [0..<nSpatialParams])
                       [0..<nComponents]\<rparr>))"

text \<open>
  \<^verbatim>\<open>FillABVisitor::processCandidate\<close>; the visitor's state is the matrix \<^verbatim>\<open>_A\<close> and the
  vector \<^verbatim>\<open>_b\<close>. The indices \<open>i\<close> and \<open>j \<ge> i\<close> run over the pairs of a component and a
  spatial parameter, \<open>i = ic * nSpatialParams + is\<close>, as the nested loops of the source do.
\<close>

definition FillAB_processCandidate ::
  "fit_env \<Rightarrow> kernel_obj \<Rightarrow> real \<Rightarrow> (nat \<times> nat \<Rightarrow> real) \<times> (nat \<Rightarrow> real) \<Rightarrow> psf_candidate \<Rightarrow>
   error + (((nat \<times> nat \<Rightarrow> real) \<times> (nat \<Rightarrow> real)) \<times> psf_candidate)" where
  "FillAB_processCandidate env krn tau2 ab c =
     (if \<not> cand_isPsfCandidate c then Inl LogicErrorException
      else
        (case cand_image c of
           None \<Rightarrow> Inr (ab, c)
         | Some data \<Rightarrow>
             (let nComponents = k_nKernelParameters krn;
                  nSpatialParams = k_nSpatialParameters krn;
                  amp = cand_amplitude c;
                  var = cand_var c;
                  ivar = 1 / (var + tau2);
                  params = map (\<lambda>ic. getDFuncDParameters env krn ic (cand_xCenter c) (cand_yCenter c))
                             [0..<nComponents];
                  param = (\<lambda>i. params ! (i div nSpatialParams) ! (i mod nSpatialParams));
                  basisDotData = (\<lambda>ic. innerProduct env (basisImage env krn ic)
                                          (map (map dp_image) data) (getBorderWidth env));
                  basisDotBasis = (\<lambda>ic jc. innerProduct env (basisImage env krn ic)
                                             (basisImage env krn jc) (getBorderWidth env));
                  step = (\<lambda>ab i.
                    (let b' = (snd ab)(i := snd ab i +
                                 ivar * param i * basisDotData (i div nSpatialParams) / amp);
                         A' = foldl (\<lambda>A j.
                                (let v = A (i, j) + ivar * param i * param j *
                                           basisDotBasis (i div nSpatialParams) (j div nSpatialParams)
                                 in A((i, j) := v, (j, i) := v)))
                                (fst ab) [i..<nComponents * nSpatialParams]
                     in (A', b')))
              in Inr (foldl step ab [0..<nComponents * nSpatialParams], c))))"

text \<open>
  The fit with the non-linear minimiser (the overload without \<^verbatim>\<open>doNonLinearFit\<close>). The
  function that Minuit minimises sets the parameters and visits the first
  \<^verbatim>\<open>nStarPerCell\<close> candidates of each cell; here it returns the chi-squared only. The
  result is \<open>((isValid, minChi2), kernel, cells)\<close>.
\<close>

definition fitSpatialKernelFromPsfCandidates_nonlinear ::
  "fit_env \<Rightarrow> kernel_obj \<Rightarrow> psf_candidate list list \<Rightarrow> int \<Rightarrow> real \<Rightarrow>
   error + ((bool \<times> real) \<times> kernel_obj \<times> psf_candidate list list)" where
  "fitSpatialKernelFromPsfCandidates_nonlinear env krn psfCells nStarPerCell tolerance =
     (let nComponents = k_nKernelParameters krn;
          nSpatialParams = k_nSpatialParameters krn;
          coeffs = map (\<lambda>i. if i mod nSpatialParams = 0 then 1 else 0)
                     [0..<nComponents * nSpatialParams];
          errorDef = 1;
          minimizerFunc = (\<lambda>cs.
            case setSpatialParameters krn cs of
              Inl e \<Rightarrow> Inl e
            | Inr k \<Rightarrow>
                (case visit_cells (evalChi2_processCandidate env k) nStarPerCell False 0 psfCells of
                   Inl e \<Rightarrow> Inl e
                 | Inr r \<Rightarrow> Inr (fst r)))
      in case migrad env minimizerFunc coeffs (tolerance / (1 / 10000 * errorDef)) of
           Inl e \<Rightarrow> Inl e
         | Inr m \<Rightarrow>
             (let minChi2 = fst (snd m);
                  isValid = (fst m \<and> fst (snd (snd m)))
              in case setSpatialParameters krn (snd (snd (snd m))) of
                   Inl e \<Rightarrow> Inl e
                 | Inr k \<Rightarrow>
                     (case visit_cells (evalChi2_processCandidate env k) 0 True 0 psfCells of
                        Inl e \<Rightarrow> Inl e
                      | Inr r \<Rightarrow> Inr ((isValid, minChi2), k, snd r))))"

text \<open>
  The fit with the choice of the method. Without the non-linear fit: the cast of the
  kernel, the visit that fills \<open>A\<close> and \<open>b\<close> (with \<open>tau = 0\<close>, from zero), the assertion on
  the size of \<open>b\<close>, the solution whose flag is not looked at, the new parameters, the visit
  of all candidates for the chi-squared, and \<^verbatim>\<open>return std::make_pair(true, ...)\<close>.
\<close>

definition fitSpatialKernelFromPsfCandidates ::
  "fit_env \<Rightarrow> kernel_obj \<Rightarrow> psf_candidate list list \<Rightarrow> bool \<Rightarrow> int \<Rightarrow> real \<Rightarrow>
   error + ((bool \<times> real) \<times> kernel_obj \<times> psf_candidate list list)" where
  "fitSpatialKernelFromPsfCandidates env krn psfCells doNonLinearFit nStarPerCell tolerance =
     (if doNonLinearFit
      then fitSpatialKernelFromPsfCandidates_nonlinear env krn psfCells nStarPerCell tolerance
      else if \<not> k_isLinearCombination krn then Inl LogicErrorException
      else
        (let tau = 0;
             size = k_nKernelParameters krn * k_nSpatialParameters krn
         in case visit_cells (FillAB_processCandidate env krn tau) nStarPerCell True
                   ((\<lambda>ij. 0), (\<lambda>i. 0)) psfCells of
              Inl e \<Rightarrow> Inl e
            | Inr ab \<Rightarrow>
                if \<not> size > 1 then Inl AssertionFailed
                else
                  (let solved = ldlt_solve env size (fst (fst ab)) (snd (fst ab));
                       x = snd solved
                   in case setSpatialParameters krn x of
                        Inl e \<Rightarrow> Inl e
                      | Inr k \<Rightarrow>
                          (case visit_cells (evalChi2_processCandidate env k) 0 True 0 (snd ab) of
                             Inl e \<Rightarrow> Inl e
                           | Inr r \<Rightarrow> Inr ((True, fst r), k, snd r)))))"

text \<open>
  A fit whose solver reports failure: a kernel of two components with constant spatial
  functions, no candidates at all, and a solver that returns \<^verbatim>\<open>false\<close> and a zero vector.
\<close>

definition failing_fit_env :: fit_env where
  "failing_fit_env =
     \<lparr>computeImage = (\<lambda>k x y. []), basisImage = (\<lambda>k i. []), innerProduct = (\<lambda>a b w. 0),
      getDFuncDParameters = (\<lambda>k ic x y. [1]), getBorderWidth = 0, fit_arith = exact_arith,
      ldlt_solve = (\<lambda>n A b. (False, replicate n 0)),
      migrad = (\<lambda>f c t. Inl LogicErrorException)\<rparr>"

definition two_component_kernel :: kernel_obj where
  "two_component_kernel =
     \<lparr>k_isLinearCombination = True, k_nKernelParameters = 2, k_nSpatialParameters = 1,
      k_spatialParameters = [[1], [1]]\<rparr>"

section \<open>Properties\<close>

subsection \<open>Alias resolution\<close>

lemma resolve_alias_fixed:
  "resolve_alias aliases i = Some r \<Longrightarrow>
     0 \<le> r \<and> r < int (length aliases) \<and> aliases ! nat r = r"
proof (rule resolve_alias.raw_induct
    [where P = "\<lambda>a j y. 0 \<le> y \<and> y < int (length a) \<and> a ! nat y = y"])
  fix rec :: "int list \<Rightarrow> int \<Rightarrow> int option" and a j y
  assume "\<And>a j y. rec a j = Some y \<Longrightarrow> 0 \<le> y \<and> y < int (length a) \<and> a ! nat y = y"
    and "(if j < 0 \<or> int (length a) \<le> j then None
          else if j \<noteq> a ! nat j then rec a (a ! nat j) else Some j) = Some y"
  then show "0 \<le> y \<and> y < int (length a) \<and> a ! nat y = y"
    by (auto split: if_splits)
qed

lemma resolve_alias_at_fixed:
  "0 \<le> r \<Longrightarrow> r < int (length aliases) \<Longrightarrow> aliases ! nat r = r \<Longrightarrow>
     resolve_alias aliases r = Some r"
  by (subst resolve_alias.simps) simp

lemma resolve_alias_link:
  "0 \<le> i \<Longrightarrow> i < int (length aliases) \<Longrightarrow> aliases ! nat i \<noteq> i \<Longrightarrow>
     resolve_alias aliases i = resolve_alias aliases (aliases ! nat i)"
  by (subst resolve_alias.simps) auto

lemma reaches_resolve_alias: "reaches aliases i r \<Longrightarrow> resolve_alias aliases i = Some r"
proof (induction rule: reaches.induct)
  case (fixed_point i aliases)
  then show ?case by (rule resolve_alias_at_fixed)
next
  case (link i aliases r)
  then show ?case by (simp add: resolve_alias_link)
qed

text \<open>
  Conversely, whenever the loop returns \<open>r\<close> the chain from \<open>i\<close> ends at \<open>r\<close>: the
  chains that end are exactly the inputs on which \<open>resolve_alias\<close> returns.
\<close>

lemma resolve_alias_reaches: "resolve_alias aliases i = Some r \<Longrightarrow> reaches aliases i r"
proof (rule resolve_alias.raw_induct [where P = "\<lambda>a j y. reaches a j y"])
  fix rec :: "int list \<Rightarrow> int \<Rightarrow> int option" and a j y
  assume "\<And>a j y. rec a j = Some y \<Longrightarrow> reaches a j y"
    and "(if j < 0 \<or> int (length a) \<le> j then None
          else if j \<noteq> a ! nat j then rec a (a ! nat j) else Some j) = Some y"
  then show "reaches a j y"
    by (auto split: if_splits intro: reaches.intros)
qed

text \<open>
  Claim C9. Alias resolution is idempotent on every chain that terminates: if the chain
  of the table from \<open>i\<close> ends at a fixed point \<open>r\<close>, then \<open>resolve_alias\<close> returns on
  \<open>i\<close>, its result is \<open>r\<close>, it returns on that result, and resolving the result gives the
  result again.
\<close>

theorem resolve_alias_idempotent:
  assumes "reaches aliases i r"
  shows "resolve_alias aliases i = Some r \<and>
         resolve_alias aliases r = Some r \<and>
         Option.bind (resolve_alias aliases i) (resolve_alias aliases) = resolve_alias aliases i"
proof -
  have first: "resolve_alias aliases i = Some r"
    using assms by (rule reaches_resolve_alias)
  have second: "resolve_alias aliases r = Some r"
    using resolve_alias_fixed [OF first] resolve_alias_at_fixed [of r aliases] by blast
  show ?thesis
    by (simp add: first second)
qed

text \<open>
  The table \<open>[0, 2, 2]\<close>, which the union of component 1 with component 2 builds: the chain
  from 1 goes up to 2.
\<close>

theorem resolve_alias_idempotent_witness:
  "reaches [0, 2, 2] 1 2 \<and>
   resolve_alias [0, 2, 2] 1 = Some 2 \<and>
   resolve_alias [0, 2, 2] 2 = Some 2 \<and>
   Option.bind (resolve_alias [0, 2, 2] 1) (resolve_alias [0, 2, 2]) = resolve_alias [0, 2, 2] 1"
proof -
  have "reaches [0, 2, 2] 2 2"
    by (rule reaches.fixed_point) simp_all
  then have chain: "reaches [0, 2, 2] 1 2"
    using reaches.link [of 1 "[0, 2, 2]" 2] by simp
  show ?thesis
    using chain resolve_alias_idempotent [OF chain] by simp
qed

text \<open>
  On a table all of whose chains terminate, every valid id resolves, and resolving is
  idempotent.
\<close>

lemma resolve_alias_on_terminating_table:
  assumes "\<And>j. 0 \<le> j \<Longrightarrow> j < int (length aliases) \<Longrightarrow> \<exists>r. reaches aliases j r"
    and "0 \<le> i" and "i < int (length aliases)"
  shows "\<exists>r. resolve_alias aliases i = Some r \<and> resolve_alias aliases r = Some r"
proof -
  obtain r where "reaches aliases i r"
    using assms by blast
  then show ?thesis
    using reaches_resolve_alias resolve_alias_fixed resolve_alias_at_fixed by blast
qed

subsection \<open>The amplitude fit\<close>






text \<open>
  The guard can be seen in \<open>toy_double\<close>: the three statements done on a pixel of variance
  0 would leave no number in the sums, and the loops of the fit leave the sums of the other
  pixel. (In the exact arithmetic on the reals, where a quotient by zero is 0, the three
  statements would leave the sums as they are, and the guard could not be seen.)
\<close>

lemma guard_is_observable:
  "accumulate toy_double \<lparr>sumMM = Some 4, sumMD = Some 6, sumDD = Some 9\<rparr>
     (Some 2, \<lparr>dp_image = Some 4, dp_variance = Some 0\<rparr>)
     = \<lparr>sumMM = None, sumMD = None, sumDD = None\<rparr> \<and>
   fitKernel_sums toy_double [[Some 2, Some 2]]
     [[\<lparr>dp_image = Some 3, dp_variance = Some 1\<rparr>, \<lparr>dp_image = Some 4, dp_variance = Some 0\<rparr>]]
     = \<lparr>sumMM = Some 4, sumMD = Some 6, sumDD = Some 9\<rparr>"
  by (simp add: fitKernel_sums_def fitKernel_row_def fitKernel_pixel_def accumulate_def
      zero_sums_def toy_double_def lift2_def Let_def)

subsection \<open>The pixel test\<close>

lemma sqrt2_less_49: "sqrt 2 < 49"
  by (rule real_less_lsqrt) simp_all

lemma ridge_values:
  "loc_image ridge_image (3, 3) 0 0 = 100"
  "loc_variance ridge_image (3, 3) 0 0 = 1"
  "mean_ns ridge_image (3, 3) = 0"
  "mean_we ridge_image (3, 3) = 1000"
  "mean_swne ridge_image (3, 3) = 0"
  "mean_nwse ridge_image (3, 3) = 0"
  "dmean_ns ridge_image (3, 3) = sqrt 2 / 2"
  by (simp_all add: ridge_image_def flat_image_def set_image_def
      loc_image_def loc_variance_def mean_we_def mean_ns_def mean_swne_def mean_nwse_def
      dmean_we_def dmean_ns_def dmean_swne_def dmean_nwse_def)


text \<open>
  Claim C1, as the code has it. With \<open>min_sigma \<ge> 0\<close> and \<open>s = min_sigma * sqrt (variance)\<close>,
  Condition 2 rejects a pixel exactly when its value is below every one of the four
  neighbour means plus \<open>s\<close>: a pixel that \<open>is_cr_pixel\<close> accepts reaches at least one of
  the four means plus \<open>s\<close>, and a non-negative pixel that reaches at least one of them passes
  Condition 2, so that Condition 3 alone decides.
\<close>

theorem is_cr_pixel_condition_2:
  assumes "0 \<le> min_sigma"
    and "s = real_of_int min_sigma * sqrt (loc_variance mi loc 0 0)"
    and "v = loc_image mi loc 0 0"
  shows "(is_cr_pixel mi loc min_sigma thres_h thres_v thres_d bkgd e_per_dn cond3_fac = Some c \<longrightarrow>
            v \<ge> mean_ns mi loc + s \<or> v \<ge> mean_we mi loc + s \<or>
            v \<ge> mean_swne mi loc + s \<or> v \<ge> mean_nwse mi loc + s) \<and>
         (0 \<le> v \<and> (v \<ge> mean_ns mi loc + s \<or> v \<ge> mean_we mi loc + s \<or>
                   v \<ge> mean_swne mi loc + s \<or> v \<ge> mean_nwse mi loc + s) \<longrightarrow>
            is_cr_pixel mi loc min_sigma thres_h thres_v thres_d bkgd e_per_dn cond3_fac =
              map_option (\<lambda>corr. corr + bkgd)
                (condition_3 (v - bkgd) (mean_ns mi loc - bkgd) (mean_we mi loc - bkgd)
                   (mean_swne mi loc - bkgd) (mean_nwse mi loc - bkgd)
                   (sqrt (loc_variance mi loc 0 0))
                   (dmean_ns mi loc) (dmean_we mi loc) (dmean_swne mi loc) (dmean_nwse mi loc)
                   thres_h thres_v thres_d e_per_dn cond3_fac))"
  using assms
  by (auto simp: is_cr_pixel_def Let_def map_option_case split: if_splits option.splits)

text \<open>
  The pixel of \<open>ridge_image\<close> at \<open>(3, 3)\<close> reaches the N-S mean plus \<open>s\<close> and is accepted.
\<close>

theorem is_cr_pixel_condition_2_witness:
  "(0::int) \<le> 5 \<and>
   loc_image ridge_image (3, 3) 0 0 = 100 \<and>
   real_of_int 5 * sqrt (loc_variance ridge_image (3, 3) 0 0) = 5 \<and>
   mean_ns ridge_image (3, 3) = 0 \<and>
   is_cr_pixel ridge_image (3, 3) 5 (1/2) (1/2) (1/4) 0 1 2 = Some 0"
proof -
  have s: "(5::real) = real_of_int 5 * sqrt (loc_variance ridge_image (3, 3) 0 0)"
    by (simp add: ridge_values)
  have v: "(100::real) = loc_image ridge_image (3, 3) 0 0"
    by (simp add: ridge_values)
  have c3: "condition_3 (100 - 0) (mean_ns ridge_image (3, 3) - 0) (mean_we ridge_image (3, 3) - 0)
                   (mean_swne ridge_image (3, 3) - 0) (mean_nwse ridge_image (3, 3) - 0)
                   (sqrt (loc_variance ridge_image (3, 3) 0 0))
                   (dmean_ns ridge_image (3, 3)) (dmean_we ridge_image (3, 3)) (dmean_swne ridge_image (3, 3)) (dmean_nwse ridge_image (3, 3))
                   (1/2) (1/2) (1/4) 1 2 = Some 0"
    using sqrt2_less_49 by (simp add: condition_3_def ridge_values)
  have "is_cr_pixel ridge_image (3, 3) 5 (1/2) (1/2) (1/4) 0 1 2 = Some 0"
    using is_cr_pixel_condition_2 [of 5 5 ridge_image "(3, 3)" 100 "1/2" "1/2" "1/4" 0 1 2 0, OF _ s v]
    by (simp only: c3) (simp add: ridge_values)
  then show ?thesis
    by (simp add: ridge_values)
qed

text \<open>
  Claim C1 as stated fails: the same pixel is classified as a cosmic ray although it does
  not exceed the W-E mean by \<open>s\<close>.
\<close>

theorem is_cr_pixel_not_every_mean:
  "is_cr_pixel ridge_image (3, 3) 5 (1/2) (1/2) (1/4) 0 1 2 = Some 0 \<and>
   \<not> (loc_image ridge_image (3, 3) 0 0 \<ge>
        mean_we ridge_image (3, 3) + real_of_int 5 * sqrt (loc_variance ridge_image (3, 3) 0 0))"
  using sqrt2_less_49
  by (simp add: is_cr_pixel_def condition_3_def ridge_image_def flat_image_def set_image_def
      loc_image_def loc_variance_def mean_we_def mean_ns_def mean_swne_def mean_nwse_def
      dmean_we_def dmean_ns_def dmean_swne_def dmean_nwse_def Let_def)

subsection \<open>The directional estimates\<close>

lemma contaminated_always: "rc_badMask rc \<noteq> 0 \<Longrightarrow> contaminated rc mi loc dx dy"
  by (simp add: contaminated_def or_eq_0_iff)

lemma estimates_never_computed:
  assumes "rc_badMask rc \<noteq> 0"
  shows "estimate_we env rc mi loc x y = None"
    and "estimate_ns env rc mi loc x y = None"
    and "estimate_swne env rc mi loc x y = None"
    and "estimate_senw env rc mi loc x y = None"
  using assms
  by (simp_all add: estimate_we_def estimate_ns_def estimate_swne_def estimate_senw_def
      contaminated_always)

text \<open>
  Claim C2 at the pixel \<open>(3, 3)\<close> of scenario S1: the four support pixels of every
  direction are inside the image and carry no mask bit at all, and yet each of the four
  estimates is skipped.
\<close>

theorem estimates_skipped_on_clean_mask:
  "estimate_we env S1_remove_cr S1_image (3, 3) 3 3 = None \<and>
   estimate_ns env S1_remove_cr S1_image (3, 3) 3 3 = None \<and>
   estimate_swne env S1_remove_cr S1_image (3, 3) 3 3 = None \<and>
   estimate_senw env S1_remove_cr S1_image (3, 3) 3 3 = None \<and>
   list_all (\<lambda>d. in_image S1_image (3 + fst d, 3 + snd d) \<and>
                 loc_mask S1_image (3, 3) (fst d) (snd d) AND (1 OR 2 OR 4 OR 8) = 0)
     [(-2, 0), (-1, 0), (1, 0), (2, 0), (0, -2), (0, -1), (0, 1), (0, 2),
      (-2, -2), (-1, -1), (1, 1), (2, 2), (2, -2), (1, -1), (-1, 1), (-2, 2)]"
  by (simp add: estimate_we_def estimate_ns_def estimate_swne_def estimate_senw_def
      contaminated_def S1_remove_cr_def S1_image_def flat_image_def set_image_def
      loc_mask_def in_image_def)

subsection \<open>Building the kernel\<close>

lemma upto_small:
  "[0..4] = [0, 1, 2, 3, 4::int]" "[0..1] = [0, 1::int]" "[2..2] = [2::int]"
  by (simp_all add: upto_rec1)

lemma background_level_right_border: "background_level 2 right_border_image = Some 0"
  by (simp add: background_level_def sum_left_right_def sum_bottom_top_def row_begin_def
      right_border_image_def upto_small)

lemma length_subtract_backgrounds: "length (subtract_backgrounds b ims) = length ims"
  by (induction ims arbitrary: b) (simp_all add: Let_def)

text \<open>
  On an eigen-image of one pixel the border is clamped to 1, the divisor is
  \<open>2 * (1 * 1 + 1 * (1 - 2)) = 0\<close>, and the pixel of the basis image is not a number.
\<close>

lemma one_pixel_basis_not_a_number:
  "background_level 1 one_pixel_image = None \<and>
   kernel_pixel (createKernelFromPsfCandidates [one_pixel_image] [1] 0 1) 0 (0, 0) = None"
  by (simp add: kernel_pixel_def createKernelFromPsfCandidates_def Let_def background_level_def
      image_minus_def one_pixel_image_def)

text \<open>
  Claim C6 at the eigen-image \<open>right_border_image\<close>: the mean of the 24 pixels of its border
  frame of width \<open>min 2 (min width height) = 2\<close> is 1, the value the code computes and
  subtracts is 0, and the pixel \<open>(4, 2)\<close> of the returned basis image is still 24.
\<close>

theorem background_misses_right_border:
  "border_mean right_border_image
     (min 2 (min (im_width right_border_image) (im_height right_border_image))) = 1 \<and>
   length (border_frame right_border_image 2) = 24 \<and>
   background_level 2 right_border_image = Some 0 \<and>
   kernel_pixel (createKernelFromPsfCandidates [right_border_image] [1] 0 1) 0 (4, 2) = Some 24"
proof -
  have "border_mean right_border_image
     (min 2 (min (im_width right_border_image) (im_height right_border_image))) = 1"
    by (simp add: border_mean_def border_frame_def right_border_image_def upto_small)
  moreover have "length (border_frame right_border_image 2) = 24"
    by (simp add: border_frame_def right_border_image_def upto_small)
  moreover have
    "kernel_pixel (createKernelFromPsfCandidates [right_border_image] [1] 0 1) 0 (4, 2) = Some 24"
    by (simp add: kernel_pixel_def createKernelFromPsfCandidates_def Let_def
        background_level_right_border image_minus_def)
       (simp add: right_border_image_def)
  ultimately show ?thesis
    using background_level_right_border by simp
qed

text \<open>
  Claim C7, as the code has it. In the kernel that \<open>createKernelFromPsfCandidates\<close> returns,
  there are as many spatial functions as basis images, and every spatial function (not only
  the first) has the constant term 1 and all its other coefficients 0.
\<close>

theorem initial_spatial_coefficients:
  assumes "createKernelFromPsfCandidates eigenImages eigenValues nEigenComponents spatialOrder
             = Inr (psf, ev)"
    and "0 \<le> spatialOrder"
    and "f \<in> set (spatialFunctionList psf)"
  shows "length (spatialFunctionList psf) = length (kernelList psf) \<and>
         length f = nat ((spatialOrder + 1) * (spatialOrder + 2) div 2) \<and>
         f ! 0 = 1 \<and> (\<forall>j. 0 < j \<and> j < length f \<longrightarrow> f ! j = 0)"
proof -
  have pos: "0 < (spatialOrder + 1) * (spatialOrder + 2) div 2"
  proof -
    have "2 \<le> (spatialOrder + 1) * (spatialOrder + 2)"
      using assms(2) by (intro order_trans [OF _ mult_mono [of 1 "spatialOrder + 1" 2 "spatialOrder + 2"]]) simp_all
    then show ?thesis by simp
  qed
  from assms(1) have k: "spatialFunctionList psf =
      replicate (length (kernelList psf)) (setParameter (PolynomialFunction2 spatialOrder) 0 1)"
    by (auto simp: createKernelFromPsfCandidates_def Let_def length_subtract_backgrounds
        split: if_splits)
  with assms(3) have f: "f = setParameter (PolynomialFunction2 spatialOrder) 0 1"
    by (metis in_set_replicate)
  show ?thesis
    using pos k by (simp add: f setParameter_def PolynomialFunction2_def nth_list_update)
qed

theorem initial_spatial_coefficients_witness:
  "createKernelFromPsfCandidates [right_border_image, right_border_image] [2, 1] 0 1
     = Inr (\<lparr>kernelList = subtract_backgrounds 2 [right_border_image, right_border_image],
             spatialFunctionList = [[1, 0, 0], [1, 0, 0]]\<rparr>, [2, 1]) \<and>
   (0::int) \<le> 1 \<and> [1, 0, 0] \<in> set [[1, 0, 0], [1, 0, 0::real]] \<and>
   length [1, 0, 0::real] = nat ((1 + 1) * (1 + 2) div 2)"
proof -
  have run: "createKernelFromPsfCandidates [right_border_image, right_border_image] [2, 1] 0 1
     = Inr (\<lparr>kernelList = subtract_backgrounds 2 [right_border_image, right_border_image],
             spatialFunctionList = [[1, 0, 0], [1, 0, 0]]\<rparr>, [2, 1])"
    by (simp add: createKernelFromPsfCandidates_def PolynomialFunction2_def setParameter_def
        Let_def numeral_2_eq_2 numeral_3_eq_3 del: subtract_backgrounds.simps)
  show ?thesis
    using run initial_spatial_coefficients [OF run, of "[1, 0, 0]"] by simp
qed

text \<open>
  Claim C7 as stated fails: with two components, the constant term of spatial function
  number 1 is 1, not 0.
\<close>

theorem second_constant_term_is_one:
  "spatial_coefficient
     (createKernelFromPsfCandidates [right_border_image, right_border_image] [2, 1] 0 1) 1 0
     = Some 1 \<and>
   spatial_coefficient
     (createKernelFromPsfCandidates [right_border_image, right_border_image] [2, 1] 0 1) 1 0
     \<noteq> Some 0"
  by (simp add: spatial_coefficient_def createKernelFromPsfCandidates_def
      PolynomialFunction2_def setParameter_def Let_def numeral_2_eq_2 numeral_3_eq_3
      del: subtract_backgrounds.simps)

subsection \<open>Scenario S1, step by step\<close>

lemma test_args_S1: "test_args_of S1_psf 0 S1_policy = S1_ta"
  by (simp add: test_args_of_def S1_psf_def S1_policy_def S1_ta_def)

lemma policy_S1:
  "pol_min_sigma S1_policy = 5" "pol_cond3_fac S1_policy = 2" "pol_min_e S1_policy = 100"
  "pol_e_per_dn S1_policy = 1" "pol_niteration S1_policy = 0" "pol_cond3_fac2 S1_policy = 1/2"
  by (simp_all add: S1_policy_def)

lemma planes_S1:
  "badBit S1_planes = 1" "crBit S1_planes = 8" "interpBit S1_planes = 4" "saturBit S1_planes = 2"
  by (simp_all add: S1_planes_def)

lemma c_trunc_values:
  "c_trunc 5 = 5" "c_trunc 100 = 100" "c_trunc 1000 = 1000" "c_trunc 0 = 0"
  "c_trunc (5 / 2) = 2" "c_trunc (2001 / 2) = 1000"
  by (simp_all add: c_trunc_def)

text \<open>A value beyond the range of the \<^verbatim>\<open>int\<close>, and the two ends of the range.\<close>

lemma c_trunc_range:
  "c_trunc 3000000000 = - 2147483648" "c_trunc (4294967295 / 2) = 2147483647"
  "c_trunc (- 4294967297 / 2) = - 2147483648" "c_trunc (- 5 / 2) = - 2"
  by (simp_all add: c_trunc_def)

lemma interior_pixels_7:
  "interior_pixels 7 7 =
     [(1, 1), (2, 1), (3, 1), (4, 1), (5, 1),
      (1, 2), (2, 2), (3, 2), (4, 2), (5, 2),
      (1, 3), (2, 3), (3, 3), (4, 3), (5, 3),
      (1, 4), (2, 4), (3, 4), (4, 4), (5, 4),
      (1, 5), (2, 5), (3, 5), (4, 5), (5, 5)]"
proof -
  have "[1..5] = [1, 2, 3, 4, 5::int]"
    by (simp add: upto_rec1)
  then show ?thesis
    by (simp add: interior_pixels_def)
qed

lemma sweep_S1:
  "initial_sweep S1_ta 5 2 7
     \<lparr>st_mimage = S1_image, st_crpixels = [], st_counter = 0, st_nrand = 0\<rparr>
   = \<lparr>st_mimage = set_image S1_image (3, 3) 0,
      st_crpixels = [\<lparr>crp_id = -1, crp_col = 3, crp_row = 3, crp_val = 1000, crp_i = 1\<rparr>],
      st_counter = 1, st_nrand = 0\<rparr>"
  using sqrt2_less_49
  by (simp add: initial_sweep_def S1_ta_def interior_pixels_7 sweep_pixel_def is_cr_pixel_def
      condition_3_def S1_image_def flat_image_def set_image_def CRPixel_def c_trunc_def
      loc_image_def loc_variance_def loc_mask_def mean_we_def mean_ns_def mean_swne_def
      mean_nwse_def dmean_we_def dmean_ns_def dmean_swne_def dmean_nwse_def Let_def)

lemma found_S1:
  "find_footprints S1_ta S1_policy 7 S1_image 0 = Inr (S1_found, [[(3, 3, 3)]])"
  apply (simp only: find_footprints_def policy_S1 c_trunc_values)
  apply (simp only: sweep_S1)
  apply (simp add: S1_found_def CRPixel_def c_trunc_def resolve_alias.simps
      build_footprints_def addSpan_def S1_image_def flat_image_def set_image_def Let_def)
  done

lemma reinstate_S1: "reinstate (st_mimage S1_found) (st_crpixels S1_found) = Inr S1_image"
  by (simp add: reinstate_def S1_found_def S1_image_def flat_image_def set_image_def in_image_def)

lemma condition_1_S1: "condition_1 S1_image 0 100 1 [[(3, 3, 3)]] = [[(3, 3, 3)]]"
  by (simp add: condition_1_def CountsInCR_def footprint_pixels_def to_local_def
      S1_image_def flat_image_def set_image_def)

lemma RemoveCR_call_shape:
  "\<exists>w n. RemoveCR_call env rc st loc x y = (set_image (fst st) loc w, n)"
  unfolding RemoveCR_call_def Let_def by (rule exI, rule exI, rule refl)

lemma footprintAndMask_clean:
  "(\<And>p. mi_mask mi p AND bits = 0) \<Longrightarrow> footprintAndMask foot mi bits = []"
  by (simp add: footprintAndMask_def)

lemma removeCR_single:
  "mi_width mi = 7 \<Longrightarrow> mi_height mi = 7 \<Longrightarrow> mi_X0 mi = 0 \<Longrightarrow> mi_Y0 mi = 0 \<Longrightarrow>
   removeCR env (mi, n) [[(3, 3, 3)]] 0 8 2 7 True False
     = RemoveCR_call env S1_remove_cr (mi, n) (3, 3) 3 3"
  by (simp add: removeCR_def removeCR_step_def RemoveCR_apply_def footprint_pixels_def
      to_local_def S1_remove_cr_def)

lemma removeCR_single_grow:
  "mi_width mi = 7 \<Longrightarrow> mi_height mi = 7 \<Longrightarrow> mi_X0 mi = 0 \<Longrightarrow> mi_Y0 mi = 0 \<Longrightarrow>
   (\<And>p. mi_mask mi p AND 2 = 0) \<Longrightarrow>
   removeCR env (mi, n) [[(3, 3, 3)]] 0 8 2 7 True True
     = RemoveCR_call env S1_remove_cr (mi, n) (3, 3) 3 3"
  by (simp add: removeCR_def removeCR_step_def RemoveCR_apply_def footprint_pixels_def
      to_local_def S1_remove_cr_def footprintAndMask_clean getNpix_def)

lemma setMask_single:
  "mi_X0 mi = 0 \<Longrightarrow> mi_Y0 mi = 0 \<Longrightarrow>
   setMaskFromFootprintList mi [[(3, 3, 3)]] bits = or_mask mi (3, 3) bits"
  by (simp add: setMaskFromFootprintList_def setMaskFromFootprint_def footprint_pixels_def
      to_local_def)

lemma S1_first_shape:
  "\<exists>w. fst (S1_first env) = set_image S1_image (3, 3) w"
  using RemoveCR_call_shape [of env S1_remove_cr "(S1_image, 0)" "(3, 3)" 3 3]
  by (auto simp: S1_first_def)

lemma S1_second_shape:
  "\<exists>w. fst (S1_second env) = set_image (or_mask (fst (S1_first env)) (3, 3) 8) (3, 3) w"
  using RemoveCR_call_shape [of env S1_remove_cr
      "(or_mask (fst (S1_first env)) (3, 3) 8, snd (S1_first env))" "(3, 3)" 3 3]
  by (auto simp: S1_second_def)

lemma S1_run:
  "findCosmicRays env S1_planes 0 S1_image S1_psf 0 S1_policy False
     = Inr \<lparr>fr_CRs = [[(3, 3, 3)]],
            fr_state = S1_found\<lparr>st_mimage := or_mask (fst (S1_second env)) (3, 3) 8,
                                st_nrand := snd (S1_second env)\<rparr>,
            fr_trace = []\<rparr>"
proof -
  obtain w1 where w1: "fst (S1_first env) = set_image S1_image (3, 3) w1"
    using S1_first_shape by blast
  define m1 where "m1 = fst (S1_first env)"
  define mi1 where "mi1 = or_mask m1 (3, 3) 8"
  obtain w2 where w2: "fst (S1_second env) = set_image mi1 (3, 3) w2"
    using S1_second_shape unfolding mi1_def m1_def by blast
  define m2 where "m2 = fst (S1_second env)"
  have dims0: "mi_width S1_image = 7" "mi_height S1_image = 7"
    "mi_X0 S1_image = 0" "mi_Y0 S1_image = 0"
    by (simp_all add: S1_image_def flat_image_def set_image_def)
  have dims_m1: "mi_X0 m1 = 0" "mi_Y0 m1 = 0"
    by (simp_all add: m1_def w1 set_image_def S1_image_def flat_image_def)
  have dims: "mi_width mi1 = 7" "mi_height mi1 = 7" "mi_X0 mi1 = 0" "mi_Y0 mi1 = 0"
    by (simp_all add: mi1_def m1_def w1 or_mask_def set_image_def S1_image_def flat_image_def)
  have dims_m2: "mi_X0 m2 = 0" "mi_Y0 m2 = 0"
    by (simp_all add: m2_def w2 set_image_def dims)
  have nosat: "\<And>p. mi_mask mi1 p AND 2 = 0"
    by (simp add: mi1_def m1_def w1 or_mask_def set_image_def S1_image_def flat_image_def)
  have first: "removeCR env (S1_image, 0) [[(3, 3, 3)]] 0 8 2 7 True False
      = (m1, snd (S1_first env))"
    by (simp add: removeCR_single dims0 m1_def S1_first_def)
  have second: "removeCR env (mi1, snd (S1_first env)) [[(3, 3, 3)]] 0 8 2 7 True True
      = (m2, snd (S1_second env))"
    using removeCR_single_grow [OF dims nosat, of env "snd (S1_first env)"]
    by (simp add: m2_def S1_second_def mi1_def m1_def)
  have fin: "finish env S1_planes 0 False
      \<lparr>gs_state = S1_found\<lparr>st_mimage := m1, st_nrand := snd (S1_first env)\<rparr>,
       gs_CRs = [[(3, 3, 3)]], gs_nextra = 0, gs_trace = []\<rparr>
    = Inr \<lparr>fr_CRs = [[(3, 3, 3)]],
           fr_state = S1_found\<lparr>st_mimage := or_mask m2 (3, 3) 8,
                               st_nrand := snd (S1_second env)\<rparr>,
           fr_trace = []\<rparr>"
    by (simp add: finish_def planes_S1 setMask_single dims_m1 mi1_def [symmetric] second dims_m2)
  show ?thesis
    apply (simp only: findCosmicRays_def test_args_S1 policy_S1 planes_S1 c_trunc_values)
    apply (simp add: found_S1 reinstate_S1 condition_1_S1 first growth_def fin)
    apply (simp add: m2_def)
    done
qed

text \<open>
  Claim C3 in scenario S1 with \<^verbatim>\<open>keep = false\<close>, whatever the collaborators compute: the
  call returns the one footprint \<open>{(3, 3)}\<close>, the image at \<open>(3, 3)\<close> is the value that the
  final interpolation wrote there, and the mask at \<open>(3, 3)\<close> is 8, the \<^verbatim>\<open>CR\<close> bit alone:
  the \<^verbatim>\<open>INTRP\<close> bit (4) is not set.
\<close>

theorem S1_interpolated_without_INTRP:
  "result_CRs (findCosmicRays env S1_planes 0 S1_image S1_psf 0 S1_policy False)
     = Some [[(3, 3, 3)]] \<and>
   result_image (findCosmicRays env S1_planes 0 S1_image S1_psf 0 S1_policy False) (3, 3)
     = Some (mi_image (fst (S1_second env)) (3, 3)) \<and>
   result_mask (findCosmicRays env S1_planes 0 S1_image S1_psf 0 S1_policy False) (3, 3)
     = Some 8 \<and>
   crBit S1_planes = 8 \<and> interpBit S1_planes = 4 \<and> (8 :: mask_pixel) AND 4 = 0"
proof -
  obtain w1 where w1: "fst (S1_first env) = set_image S1_image (3, 3) w1"
    using S1_first_shape by blast
  obtain w2 where w2:
    "fst (S1_second env) = set_image (or_mask (fst (S1_first env)) (3, 3) 8) (3, 3) w2"
    using S1_second_shape by blast
  show ?thesis
    unfolding S1_run
    by (simp add: result_CRs_def result_image_def result_mask_def planes_S1 w2 w1
        or_mask_def set_image_def S1_image_def flat_image_def)
qed

subsection \<open>The mask plane of the interpolated pixels\<close>

lemma foldl_preserves:
  assumes "\<And>a x. f (g a x) = f a"
  shows "f (foldl g a xs) = f a"
  by (induction xs arbitrary: a) (simp_all add: assms)

lemma foldl_invariant:
  assumes "\<And>a x. P a \<Longrightarrow> P (g a x)" and "P a"
  shows "P (foldl g a xs)"
  using assms(2) by (induction xs arbitrary: a) (simp_all add: assms(1))

lemma mask_set_image [simp]: "mi_mask (set_image mi loc v) = mi_mask mi"
  by (simp add: set_image_def)

lemma mask_sweep_pixel:
  "mi_mask (st_mimage (sweep_pixel ta ms c3 bad st loc)) = mi_mask (st_mimage st)"
  by (simp add: sweep_pixel_def Let_def split: option.splits)

lemma mask_initial_sweep:
  "mi_mask (st_mimage (initial_sweep ta ms c3 bad st)) = mi_mask (st_mimage st)"
  unfolding initial_sweep_def
  by (rule foldl_preserves [where f = "\<lambda>s. mi_mask (st_mimage s)"]) (rule mask_sweep_pixel)

lemma mask_find_footprints:
  "find_footprints ta pol bad mimage counter = Inr found \<Longrightarrow>
   mi_mask (st_mimage (fst found)) = mi_mask mimage"
  by (auto simp: find_footprints_def Let_def mask_initial_sweep
      split: sum.splits option.splits if_splits)

lemma mask_write_pixels:
  "write_pixels mi ws = Inr mi' \<Longrightarrow> mi_mask mi' = mi_mask mi"
  by (induction ws arbitrary: mi) (auto split: if_splits)

lemma mask_reinstate: "reinstate mi crpixels = Inr mi' \<Longrightarrow> mi_mask mi' = mi_mask mi"
  unfolding reinstate_def by (cases "crpixels = []") (simp_all add: mask_write_pixels)

lemma mask_RemoveCR_call:
  "mi_mask (fst (RemoveCR_call env rc st loc x y)) = mi_mask (fst st)"
  using RemoveCR_call_shape [of env rc st loc x y] by auto

lemma mask_RemoveCR_apply:
  "mi_mask (fst (RemoveCR_apply env rc st foot)) = mi_mask (fst st)"
  unfolding RemoveCR_apply_def
  by (rule foldl_preserves [where f = "\<lambda>s. mi_mask (fst s)"]) (rule mask_RemoveCR_call)

lemma same_plane_refl: "same_plane b mi mi"
  by (simp add: same_plane_def)

lemma same_plane_eq: "mi_mask mi' = mi_mask mi \<Longrightarrow> same_plane b mi mi'"
  by (simp add: same_plane_def)

lemma same_plane_trans: "same_plane b m1 m2 \<Longrightarrow> same_plane b m2 m3 \<Longrightarrow> same_plane b m1 m3"
  by (simp add: same_plane_def)

lemma or_and_other:
  assumes "b AND bits = 0"
  shows "(m OR bits) AND b = m AND (b :: mask_pixel)"
proof -
  have "(m OR bits) AND b = (m AND b) OR (bits AND b)"
    by (rule bit.conj_disj_distrib2)
  also have "bits AND b = 0"
    using assms by (simp add: and.commute)
  finally show ?thesis by simp
qed

lemma same_plane_or_mask: "b AND bits = 0 \<Longrightarrow> same_plane b mi (or_mask mi loc bits)"
  by (simp add: same_plane_def or_mask_def or_and_other)

lemma same_plane_setMaskFromFootprint:
  assumes "b AND bits = 0"
  shows "same_plane b mi (setMaskFromFootprint mi foot bits)"
  unfolding setMaskFromFootprint_def
  by (rule foldl_invariant [where P = "same_plane b mi"])
     (auto intro: same_plane_trans same_plane_or_mask [OF assms] same_plane_refl)

lemma same_plane_setMaskFromFootprintList:
  assumes "b AND bits = 0"
  shows "same_plane b mi (setMaskFromFootprintList mi feet bits)"
  unfolding setMaskFromFootprintList_def
  by (rule foldl_invariant [where P = "same_plane b mi"])
     (auto intro: same_plane_trans same_plane_setMaskFromFootprint [OF assms] same_plane_refl)

lemma same_plane_removeCR_step:
  assumes "b AND sat = 0"
  shows "same_plane b (fst st) (fst (removeCR_step env rc sat grow st cr))"
  by (auto simp: removeCR_step_def Let_def mask_RemoveCR_apply
      intro: same_plane_eq same_plane_setMaskFromFootprint [OF assms])

lemma same_plane_removeCR:
  assumes "b AND sat = 0"
  shows "same_plane b (fst st) (fst (removeCR env st CRs bkgd crb sat badMask debias grow))"
  unfolding removeCR_def Let_def
  by (rule foldl_invariant [where P = "\<lambda>s. same_plane b (fst st) (fst s)"])
     (auto intro: same_plane_trans same_plane_removeCR_step [OF assms] same_plane_refl)

lemma mask_checkSpan_pixel:
  "mi_mask (st_mimage (snd (checkSpan_pixel ta ms c3 keep y acc x))) = mi_mask (st_mimage (snd acc))"
  by (simp add: checkSpan_pixel_def Let_def split: option.splits)

lemma mask_checkSpanForCRs:
  "mi_mask (st_mimage (snd (checkSpanForCRs ta ms c3 keep y x0 x1 acc))) = mi_mask (st_mimage (snd acc))"
  unfolding checkSpanForCRs_def
  by (rule foldl_preserves [where f = "\<lambda>a. mi_mask (st_mimage (snd a))"]) (rule mask_checkSpan_pixel)

lemma mask_grow_span:
  "mi_mask (st_mimage (snd (grow_span ta ms keep acc sp))) = mi_mask (st_mimage (snd acc))"
  by (simp add: grow_span_def Let_def mask_checkSpanForCRs)

lemma mask_grow_cr:
  "mi_mask (st_mimage (fst (grow_cr env ta ms keep ib acc cr))) = mi_mask (st_mimage (fst acc))"
proof -
  have "mi_mask (st_mimage (snd (foldl (grow_span ta ms keep) ([], fst acc) cr)))
      = mi_mask (st_mimage (snd ([] :: footprint, fst acc)))"
    by (rule foldl_preserves [where f = "\<lambda>a. mi_mask (st_mimage (snd a))"]) (rule mask_grow_span)
  then show ?thesis
    by (simp add: grow_cr_def Let_def)
qed

lemma mask_growth_pass:
  "mi_mask (st_mimage (gs_state (growth_pass env ta ms keep ib gs))) = mi_mask (st_mimage (gs_state gs))"
proof -
  have "mi_mask (st_mimage (fst (foldl (grow_cr env ta ms keep ib) (gs_state gs, [], gs_nextra gs) (gs_CRs gs))))
      = mi_mask (st_mimage (fst (gs_state gs, [] :: footprint list, gs_nextra gs)))"
    by (rule foldl_preserves [where f = "\<lambda>a. mi_mask (st_mimage (fst a))"]) (rule mask_grow_cr)
  then show ?thesis
    by (simp add: growth_pass_def Let_def)
qed

lemma mask_growth_loop:
  "mi_mask (st_mimage (gs_state (growth_loop env ta ms keep ib n gs))) = mi_mask (st_mimage (gs_state gs))"
  by (induction n arbitrary: gs) (simp_all add: Let_def mask_growth_pass)

lemma mask_growth:
  "growth env ta ms keep ib niteration gs = Some gs' \<Longrightarrow>
   mi_mask (st_mimage (gs_state gs')) = mi_mask (st_mimage (gs_state gs))"
  by (auto simp: growth_def Let_def mask_growth_loop mask_growth_pass split: if_splits)

lemma same_plane_finish:
  assumes "finish env planes bkgd keep gs = Inr res"
    and "interpBit planes AND crBit planes = 0" and "interpBit planes AND saturBit planes = 0"
  shows "same_plane (interpBit planes) (st_mimage (gs_state gs)) (st_mimage (fr_state res))"
proof -
  let ?b = "interpBit planes"
  let ?mi1 = "setMaskFromFootprintList (st_mimage (gs_state gs)) (gs_CRs gs) (crBit planes)"
  have one: "same_plane ?b (st_mimage (gs_state gs)) ?mi1"
    by (rule same_plane_setMaskFromFootprintList [OF assms(2)])
  show ?thesis
  proof (cases keep)
    case True
    with assms(1) obtain mi2 ws where "write_pixels ?mi1 ws = Inr mi2"
      and "st_mimage (fr_state res) = mi2"
      by (auto simp: finish_def Let_def split: if_splits sum.splits)
    then show ?thesis
      using one mask_write_pixels same_plane_eq same_plane_trans by metis
  next
    case False
    let ?r = "removeCR env (?mi1, st_nrand (gs_state gs)) (gs_CRs gs) bkgd (crBit planes)
                (saturBit planes) (badBit planes OR interpBit planes OR saturBit planes) True True"
    from False assms(1) have res:
      "st_mimage (fr_state res) = setMaskFromFootprintList (fst ?r) (gs_CRs gs) (crBit planes)"
      by (auto simp: finish_def Let_def)
    have two: "same_plane ?b ?mi1 (fst ?r)"
      using same_plane_removeCR [OF assms(3), of "(?mi1, st_nrand (gs_state gs))"] by simp
    have three: "same_plane ?b (fst ?r) (st_mimage (fr_state res))"
      unfolding res by (rule same_plane_setMaskFromFootprintList [OF assms(2)])
    show ?thesis
      using one two three same_plane_trans by blast
  qed
qed

text \<open>
  No call of \<open>findCosmicRays\<close> that returns changes the \<^verbatim>\<open>INTRP\<close> bit of any pixel,
  the planes \<^verbatim>\<open>CR\<close> and \<^verbatim>\<open>SAT\<close> being other bits: the only mask writes are those of
  \<^verbatim>\<open>crBit\<close> and \<^verbatim>\<open>saturBit\<close>.
\<close>

lemma findCosmicRays_keeps_INTRP_plane:
  assumes "findCosmicRays env planes counter mimage psf_getValue bkgd pol keep = Inr res"
    and "interpBit planes AND crBit planes = 0" and "interpBit planes AND saturBit planes = 0"
  shows "mi_mask (st_mimage (fr_state res)) p AND interpBit planes
           = mi_mask mimage p AND interpBit planes"
proof -
  let ?b = "interpBit planes"
  let ?bad = "badBit planes OR interpBit planes OR saturBit planes"
  let ?ta = "test_args_of psf_getValue bkgd pol"
  from assms(1) obtain found mi1 gs where
    found: "find_footprints ?ta pol ?bad mimage counter = Inr found"
    and mi1: "reinstate (st_mimage (fst found)) (st_crpixels (fst found)) = Inr mi1"
    and gs: "growth env ?ta (pol_min_sigma pol) keep ?b (pol_niteration pol)
               \<lparr>gs_state = (fst found)\<lparr>st_mimage :=
                    fst (removeCR env (mi1, 0)
                          (condition_1 mi1 bkgd (c_trunc (pol_min_e pol)) (pol_e_per_dn pol) (snd found))
                          bkgd (crBit planes) (saturBit planes) ?bad True False),
                  st_nrand := snd (removeCR env (mi1, 0)
                          (condition_1 mi1 bkgd (c_trunc (pol_min_e pol)) (pol_e_per_dn pol) (snd found))
                          bkgd (crBit planes) (saturBit planes) ?bad True False)\<rparr>,
                gs_CRs = condition_1 mi1 bkgd (c_trunc (pol_min_e pol)) (pol_e_per_dn pol) (snd found),
                gs_nextra = 0, gs_trace = []\<rparr> = Some gs"
    and fin: "finish env planes bkgd keep gs = Inr res"
    by (auto simp: findCosmicRays_def Let_def split: if_splits sum.splits option.splits)
  have a: "same_plane ?b mimage mi1"
    using mask_find_footprints [OF found] mask_reinstate [OF mi1] by (simp add: same_plane_def)
  have b: "same_plane ?b mi1 (st_mimage (gs_state gs))"
    using mask_growth [OF gs]
      same_plane_removeCR [OF assms(3), of "(mi1, 0)" env
        "condition_1 mi1 bkgd (c_trunc (pol_min_e pol)) (pol_e_per_dn pol) (snd found)"
        bkgd "crBit planes" ?bad True False]
    by (simp add: same_plane_def)
  have c: "same_plane ?b (st_mimage (gs_state gs)) (st_mimage (fr_state res))"
    by (rule same_plane_finish [OF fin assms(2,3)])
  have "same_plane ?b mimage (st_mimage (fr_state res))"
    using a b c same_plane_trans by blast
  then show ?thesis
    unfolding same_plane_def by blast
qed

subsection \<open>Keeping the cosmic rays\<close>

lemma sweep_fractional:
  "initial_sweep S1_ta 5 2 7
     \<lparr>st_mimage = fractional_image, st_crpixels = [], st_counter = 0, st_nrand = 0\<rparr>
   = \<lparr>st_mimage = set_image S1_image (3, 3) 0,
      st_crpixels = [\<lparr>crp_id = -1, crp_col = 3, crp_row = 3, crp_val = 1000, crp_i = 1\<rparr>],
      st_counter = 1, st_nrand = 0\<rparr>"
  using sqrt2_less_49
  by (simp add: initial_sweep_def S1_ta_def interior_pixels_7 sweep_pixel_def is_cr_pixel_def
      condition_3_def fractional_image_def S1_image_def flat_image_def set_image_def CRPixel_def c_trunc_def
      loc_image_def loc_variance_def loc_mask_def mean_we_def mean_ns_def mean_swne_def
      mean_nwse_def dmean_we_def dmean_ns_def dmean_swne_def dmean_nwse_def Let_def)

lemma found_fractional:
  "find_footprints S1_ta S1_policy 7 fractional_image 0 = Inr (S1_found, [[(3, 3, 3)]])"
  apply (simp only: find_footprints_def policy_S1 c_trunc_values)
  apply (simp only: sweep_fractional)
  apply (simp add: S1_found_def CRPixel_def c_trunc_def resolve_alias.simps
      build_footprints_def addSpan_def S1_image_def fractional_image_def flat_image_def set_image_def Let_def)
  done

text \<open>
  Claim C5 with \<^verbatim>\<open>keep = true\<close> on \<open>fractional_image\<close>, whatever the collaborators
  compute: the call returns normally and leaves 1000 at \<open>(3, 3)\<close>, where the image held
  1000.5 before the call.
\<close>

theorem keep_truncates:
  "result_image (findCosmicRays env S1_planes 0 fractional_image S1_psf 0 S1_policy True) (3, 3)
     = Some 1000 \<and>
   mi_image fractional_image (3, 3) = 2001 / 2"
proof -
  obtain w1 where w1: "fst (S1_first env) = set_image S1_image (3, 3) w1"
    using S1_first_shape by blast
  define m1 where "m1 = fst (S1_first env)"
  have dims0: "mi_width S1_image = 7" "mi_height S1_image = 7"
    "mi_X0 S1_image = 0" "mi_Y0 S1_image = 0"
    by (simp_all add: S1_image_def flat_image_def set_image_def)
  have dims_m1: "mi_X0 m1 = 0" "mi_Y0 m1 = 0" "mi_width m1 = 7" "mi_height m1 = 7"
    by (simp_all add: m1_def w1 set_image_def S1_image_def flat_image_def)
  have first: "removeCR env (S1_image, 0) [[(3, 3, 3)]] 0 8 2 7 True False
      = (m1, snd (S1_first env))"
    by (simp add: removeCR_single dims0 m1_def S1_first_def)
  have fin: "finish env S1_planes 0 True
      \<lparr>gs_state = S1_found\<lparr>st_mimage := m1, st_nrand := snd (S1_first env)\<rparr>,
       gs_CRs = [[(3, 3, 3)]], gs_nextra = 0, gs_trace = []\<rparr>
    = Inr \<lparr>fr_CRs = [[(3, 3, 3)]],
           fr_state = S1_found\<lparr>st_mimage := set_image (or_mask m1 (3, 3) 8) (3, 3) 1000,
                               st_nrand := snd (S1_first env)\<rparr>,
           fr_trace = []\<rparr>"
    by (simp add: finish_def planes_S1 setMask_single dims_m1 Let_def S1_found_def in_image_def
        or_mask_def)
  have run: "findCosmicRays env S1_planes 0 fractional_image S1_psf 0 S1_policy True
    = Inr \<lparr>fr_CRs = [[(3, 3, 3)]],
           fr_state = S1_found\<lparr>st_mimage := set_image (or_mask m1 (3, 3) 8) (3, 3) 1000,
                               st_nrand := snd (S1_first env)\<rparr>,
           fr_trace = []\<rparr>"
    apply (simp only: findCosmicRays_def test_args_S1 policy_S1 planes_S1 c_trunc_values)
    apply (simp add: found_fractional reinstate_S1 condition_1_S1 first growth_def fin)
    done
  show ?thesis
    unfolding run
    by (simp add: result_image_def set_image_def fractional_image_def flat_image_def)
qed

subsection \<open>The iteration\<close>

lemma policy_three:
  "pol_min_sigma three_pass_policy = 5" "pol_cond3_fac three_pass_policy = 2" "pol_min_e three_pass_policy = 100"
  "pol_e_per_dn three_pass_policy = 1" "pol_niteration three_pass_policy = 3" "pol_cond3_fac2 three_pass_policy = 1/2"
  by (simp_all add: three_pass_policy_def)

lemma test_args_three: "test_args_of S1_psf 0 three_pass_policy = S1_ta"
  by (simp add: test_args_of_def S1_psf_def three_pass_policy_def S1_ta_def)


lemmas pix_defs = is_cr_pixel_def condition_3_def flat_image_def set_image_def
      loc_image_def loc_variance_def loc_mask_def mean_we_def mean_ns_def mean_swne_def
      mean_nwse_def dmean_we_def dmean_ns_def dmean_swne_def dmean_nwse_def Let_def

lemma sweep_faint:
  "initial_sweep S1_ta 5 2 7
     \<lparr>st_mimage = faint_image, st_crpixels = [], st_counter = 0, st_nrand = 0\<rparr>
   = \<lparr>st_mimage = set_image faint_image (3, 3) 0,
      st_crpixels = [\<lparr>crp_id = -1, crp_col = 3, crp_row = 3, crp_val = 1000, crp_i = 1\<rparr>],
      st_counter = 1, st_nrand = 0\<rparr>"
  using sqrt2_less_49
  by (simp add: initial_sweep_def S1_ta_def interior_pixels_7 sweep_pixel_def 
      faint_image_def CRPixel_def c_trunc_def pix_defs)

lemma found_faint:
  "find_footprints S1_ta three_pass_policy 7 faint_image 0 = Inr (faint_found, [[(3, 3, 3)]])"
  apply (simp only: find_footprints_def policy_three c_trunc_values)
  apply (simp only: sweep_faint)
  apply (simp add: faint_found_def CRPixel_def c_trunc_def resolve_alias.simps
      build_footprints_def addSpan_def faint_image_def flat_image_def set_image_def Let_def)
  done

lemma reinstate_faint: "reinstate (st_mimage faint_found) (st_crpixels faint_found) = Inr faint_image"
  by (simp add: reinstate_def faint_found_def faint_image_def flat_image_def set_image_def in_image_def)

lemma condition_1_faint: "condition_1 faint_image 0 100 1 [[(3, 3, 3)]] = [[(3, 3, 3)]]"
  by (simp add: condition_1_def CountsInCR_def footprint_pixels_def to_local_def
      faint_image_def flat_image_def set_image_def)

lemma stub_call:
  "rc_badMask rc \<noteq> 0 \<Longrightarrow>
   RemoveCR_call stub_env rc (mi, n) loc x y
     = (set_image mi loc (rc_bkgd rc + sqrt (loc_variance mi loc 0 0) * (1 / 2)), Suc n)"
  by (simp add: RemoveCR_call_def estimates_never_computed adopt_def stub_env_def Let_def)

lemma removeCR_faint:
  "removeCR stub_env (faint_image, 0) [[(3, 3, 3)]] 0 8 2 7 True False
     = (set_image faint_image (3, 3) (1 / 2), Suc 0)"
  by (simp add: removeCR_def removeCR_step_def RemoveCR_apply_def footprint_pixels_def
      to_local_def stub_call)
     (simp add: faint_image_def flat_image_def set_image_def loc_variance_def)

lemma upto_24: "[2..4] = [2, 3, 4::int]" "[3..5] = [3, 4, 5::int]"
  by (simp_all add: upto_rec1)

lemma pass0:
  "growth_pass stub_env S1_ta 5 False 4
     \<lparr>gs_state = faint_removed, gs_CRs = [[(3, 3, 3)]], gs_nextra = 0, gs_trace = []\<rparr>
   = \<lparr>gs_state = faint_grown, gs_CRs = [[(3, 3, 3), (3, 4, 4)]], gs_nextra = 1, gs_trace = [1]\<rparr>"
  by (simp add: growth_pass_def grow_cr_def grow_span_def checkSpanForCRs_def checkSpan_pixel_def
      footprintAndMask_def footprint_pixels_def to_local_def getNpix_def addSpan_def
      faint_removed_def faint_grown_def faint_found_def faint_image_def S1_ta_def stub_env_def
      c_trunc_values upto_24 pix_defs)

lemma pass_later:
  "growth_pass stub_env S1_ta 5 False 4
     \<lparr>gs_state = faint_grown, gs_CRs = [[(3, 3, 3), (3, 4, 4)]], gs_nextra = 1, gs_trace = t\<rparr>
   = \<lparr>gs_state = faint_grown, gs_CRs = [[(3, 3, 3), (3, 4, 4)]], gs_nextra = 1, gs_trace = t @ [1]\<rparr>"
  by (simp add: growth_pass_def grow_cr_def grow_span_def checkSpanForCRs_def checkSpan_pixel_def
      footprintAndMask_def footprint_pixels_def to_local_def getNpix_def addSpan_def
      faint_removed_def faint_grown_def faint_found_def faint_image_def S1_ta_def stub_env_def
      c_trunc_values upto_24 pix_defs)

lemma finish_trace:
  "result_trace (finish env planes bkgd False gs) = Some (gs_trace gs)"
  by (simp add: finish_def result_trace_def Let_def)

lemma growth_faint:
  "growth stub_env S1_ta 5 False 4 3
     \<lparr>gs_state = faint_removed, gs_CRs = [[(3, 3, 3)]], gs_nextra = 0, gs_trace = []\<rparr>
   = Some \<lparr>gs_state = faint_grown, gs_CRs = [[(3, 3, 3), (3, 4, 4)]], gs_nextra = 1,
            gs_trace = [1, 1, 1]\<rparr>"
  by (simp add: growth_def numeral_3_eq_3 pass0 pass_later)

lemma getNpix_addSpan_single: "getNpix (addSpan foot y x x) = getNpix foot + 1"
  by (simp add: getNpix_def addSpan_def)

lemma foldl_nondecreasing:
  fixes f :: "'a \<Rightarrow> int"
  assumes "\<And>a x. f a \<le> f (g a x)"
  shows "f a \<le> f (foldl g a xs)"
proof (induction xs arbitrary: a)
  case Nil
  then show ?case by simp
next
  case (Cons x xs)
  have "f a \<le> f (g a x)" by (rule assms)
  also have "\<dots> \<le> f (foldl g (g a x) xs)" by (rule Cons.IH)
  finally show ?case by simp
qed

lemma checkSpan_pixel_npix:
  "getNpix (fst acc) \<le> getNpix (fst (checkSpan_pixel ta ms c3 keep y acc x))"
  by (simp add: checkSpan_pixel_def Let_def getNpix_addSpan_single split: option.splits)

lemma checkSpanForCRs_npix:
  "getNpix (fst acc) \<le> getNpix (fst (checkSpanForCRs ta ms c3 keep y x0 x1 acc))"
  unfolding checkSpanForCRs_def
  by (rule foldl_nondecreasing [where f = "\<lambda>a. getNpix (fst a)"]) (rule checkSpan_pixel_npix)

lemma grow_span_npix:
  "getNpix (fst acc) \<le> getNpix (fst (grow_span ta ms keep acc sp))"
proof -
  have three: "getNpix (fst acc) \<le>
      getNpix (fst (checkSpanForCRs ta h 0 keep y3 a b
        (checkSpanForCRs ta h 0 keep y2 a b (checkSpanForCRs ta h 0 keep y1 a b acc))))"
    for h y1 y2 y3 a b
    using checkSpanForCRs_npix [of acc ta h 0 keep y1 a b]
      checkSpanForCRs_npix [of "checkSpanForCRs ta h 0 keep y1 a b acc" ta h 0 keep y2 a b]
      checkSpanForCRs_npix [of "checkSpanForCRs ta h 0 keep y2 a b (checkSpanForCRs ta h 0 keep y1 a b acc)"
        ta h 0 keep y3 a b]
    by linarith
  show ?thesis
    unfolding grow_span_def Let_def using three by (simp only: if_distrib [of "\<lambda>a. getNpix (fst a)"] split: if_split) auto
qed

lemma grow_cr_nextra:
  "snd (snd acc) \<le> snd (snd (grow_cr env ta ms keep ib acc cr))"
proof -
  have "getNpix (fst ([], fst acc)) \<le> getNpix (fst (foldl (grow_span ta ms keep) ([], fst acc) cr))"
    by (rule foldl_nondecreasing [where f = "\<lambda>a. getNpix (fst a)"]) (rule grow_span_npix)
  then have "0 \<le> getNpix (fst (foldl (grow_span ta ms keep) ([], fst acc) cr))"
    by (simp add: getNpix_def)
  then show ?thesis
    by (simp add: grow_cr_def Let_def)
qed

lemma growth_pass_nextra:
  "gs_nextra gs \<le> gs_nextra (growth_pass env ta ms keep ib gs)"
proof -
  have "snd (snd (gs_state gs, [] :: footprint list, gs_nextra gs)) \<le>
        snd (snd (foldl (grow_cr env ta ms keep ib) (gs_state gs, [], gs_nextra gs) (gs_CRs gs)))"
    by (rule foldl_nondecreasing [where f = "\<lambda>a. snd (snd a)"]) (rule grow_cr_nextra)
  then show ?thesis
    by (simp add: growth_pass_def Let_def)
qed

lemma growth_pass_trace:
  "length (gs_trace (growth_pass env ta ms keep ib gs)) = Suc (length (gs_trace gs))"
  by (simp add: growth_pass_def Let_def)

lemma growth_loop_all_passes:
  "0 < gs_nextra gs \<Longrightarrow>
   length (gs_trace (growth_loop env ta ms keep ib n gs)) = length (gs_trace gs) + n"
proof (induction n arbitrary: gs)
  case 0
  then show ?case by simp
next
  case (Suc n)
  have pos: "0 < gs_nextra (growth_pass env ta ms keep ib gs)"
    using Suc.prems growth_pass_nextra [of gs env ta ms keep ib] by linarith
  then show ?case
    using Suc.IH [OF pos] by (simp add: Let_def growth_pass_trace)
qed

text \<open>
  Claim C4, as the code has it. \<^verbatim>\<open>nextra\<close> is the running total of the pixels added since
  the iteration began, and the loop leaves only when that total is 0 after a pass. Started
  with a total that is not negative (\<^verbatim>\<open>findCosmicRays\<close> starts it at 0) and
  \<open>niteration \<ge> 0\<close>, the iteration returns, and the number of passes it has run is 0 if
  \<open>niteration = 0\<close>, 1 if the total is 0 after the first pass, and \<open>niteration\<close> otherwise,
  whether or not the later passes add pixels.
\<close>

theorem growth_passes_run:
  assumes "0 \<le> niteration" and "0 \<le> gs_nextra gs"
  shows "map_option (\<lambda>r. length (gs_trace r) - length (gs_trace gs))
           (growth env ta ms keep ib niteration gs)
         = Some (if niteration = 0 then 0
                 else if gs_nextra (growth_pass env ta ms keep ib gs) = 0 then 1
                 else nat niteration)"
proof (cases "nat niteration")
  case 0
  with assms(1) have "niteration = 0" by simp
  then show ?thesis by (simp add: growth_def)
next
  case (Suc n)
  then have n: "niteration \<noteq> 0" "nat niteration = Suc n" by auto
  show ?thesis
  proof (cases "gs_nextra (growth_pass env ta ms keep ib gs) = 0")
    case True
    then show ?thesis
      using assms(1) n by (simp add: growth_def Let_def growth_pass_trace)
  next
    case False
    then have pos: "0 < gs_nextra (growth_pass env ta ms keep ib gs)"
      using assms(2) growth_pass_nextra [of gs env ta ms keep ib] by linarith
    show ?thesis
      using assms(1) n False growth_loop_all_passes [OF pos, of env ta ms keep ib n]
      by (simp add: growth_def Let_def growth_pass_trace)
  qed
qed

theorem growth_passes_run_witness:
  "(0::int) \<le> 3 \<and>
   (0::int) \<le> gs_nextra \<lparr>gs_state = faint_removed, gs_CRs = [[(3, 3, 3)]],
                          gs_nextra = 0, gs_trace = []\<rparr> \<and>
   gs_nextra (growth_pass stub_env S1_ta 5 False 4
                \<lparr>gs_state = faint_removed, gs_CRs = [[(3, 3, 3)]],
                 gs_nextra = 0, gs_trace = []\<rparr>) = 1 \<and>
   map_option
     (\<lambda>r. length (gs_trace r) -
          length (gs_trace \<lparr>gs_state = faint_removed, gs_CRs = [[(3, 3, 3)]],
                            gs_nextra = 0, gs_trace = []\<rparr>))
     (growth stub_env S1_ta 5 False 4 3
        \<lparr>gs_state = faint_removed, gs_CRs = [[(3, 3, 3)]], gs_nextra = 0, gs_trace = []\<rparr>)
   = Some 3"
  using growth_passes_run [of 3 "\<lparr>gs_state = faint_removed, gs_CRs = [[(3, 3, 3)]],
      gs_nextra = 0, gs_trace = []\<rparr>" stub_env S1_ta 5 False 4]
  by (simp add: pass0)

text \<open>
  Claim C4 as stated fails. On \<open>faint_image\<close> with three iterations, \<^verbatim>\<open>nextra\<close> is 1
  after each of three passes: the second pass added no pixel, and the third pass was run.
\<close>

theorem later_pass_runs_after_empty_pass:
  "result_trace (findCosmicRays stub_env S1_planes 0 faint_image S1_psf 0 three_pass_policy False)
     = Some [1, 1, 1]"
  apply (simp only: findCosmicRays_def test_args_three policy_three planes_S1 c_trunc_values)
  apply (simp add: found_faint reinstate_faint condition_1_faint removeCR_faint
      faint_removed_def [symmetric] growth_faint finish_trace)
  done

subsection \<open>The flag of the linear fit\<close>

text \<open>
  Claim C10. Whenever the fit without the non-linear minimiser returns, the flag it
  returns is true, whatever the solver reported and left in \<open>x\<close> (the solver is any
  function \<open>ldlt_solve env\<close>).
\<close>

theorem linear_fit_always_valid:
  assumes "fitSpatialKernelFromPsfCandidates env krn psfCells False nStarPerCell tolerance
             = Inr ((isValid, chi2), krn', psfCells')"
  shows "isValid = True"
  using assms
  by (auto simp: fitSpatialKernelFromPsfCandidates_def Let_def
      split: if_splits sum.splits)

theorem linear_fit_always_valid_witness:
  "fst (ldlt_solve failing_fit_env 2 (\<lambda>ij. 0) (\<lambda>i. 0)) = False \<and>
   fitSpatialKernelFromPsfCandidates failing_fit_env two_component_kernel [] False 0 0
     = Inr ((True, 0), two_component_kernel\<lparr>k_spatialParameters := [[0], [0]]\<rparr>, [])"
proof -
  have run: "fitSpatialKernelFromPsfCandidates failing_fit_env two_component_kernel [] False 0 0
     = Inr ((True, 0), two_component_kernel\<lparr>k_spatialParameters := [[0], [0]]\<rparr>, [])"
    by (simp add: fitSpatialKernelFromPsfCandidates_def setSpatialParameters_def
        failing_fit_env_def two_component_kernel_def numeral_2_eq_2)
  show ?thesis
    using run linear_fit_always_valid [OF run]
    by (simp add: failing_fit_env_def)
qed

end
